theory Spec2Isabelle
  imports Complex_Main
begin

section \<open>Python values shared by both training agents\<close>

text \<open>
  The two modules \<^verbatim>\<open>pymic/net_run_ssl/ssl_em.py\<close> (class \<^verbatim>\<open>SSLSegAgent\<close>) and
  \<^verbatim>\<open>pymic/net_run_wsl/wsl_mumford_shah.py\<close> (class \<^verbatim>\<open>WSL_MumfordShah\<close>) are embedded
  function by function. Python floats are idealised as reals (no rounding, no NaN, no
  infinity); Python integers are \<open>int\<close>. Every exception the embedded code can raise is a
  value of \<open>error\<close>, returned as \<open>Inl\<close>.
\<close>

datatype error =
  StopIteration | TypeError | IndexError | ZeroDivisionError | UnboundLocalError | ValueError

text \<open>\<^verbatim>\<open>d.get(key, default)\<close> on a configuration section whose key may be absent.\<close>

definition dict_get :: "'a option \<Rightarrow> 'a \<Rightarrow> 'a" where
  "dict_get entry dflt = (case entry of None \<Rightarrow> dflt | Some v \<Rightarrow> v)"

text \<open>
  The configuration keys the two \<^verbatim>\<open>training\<close> methods read. The keys read with
  \<^verbatim>\<open>.get\<close> are optional; \<^verbatim>\<open>ramp_up_length\<close> may be present with the value
  \<^verbatim>\<open>None\<close>, which both methods test for, hence the nested option. All other values
  are numbers of the type the code computes with.
\<close>

record ssl_section =
  ssl_consis_w :: "real option"
  ssl_iter_sup :: "int option"
  ssl_ramp_up_length :: "int option option"

record wsl_section =
  wsl_regularize_w :: "real option"
  wsl_iter_sup :: "int option"
  wsl_ramp_up_length :: "int option option"

record config =
  class_num :: nat
  iter_valid :: int
  iter_max :: int
  semi_supervised_learning :: ssl_section
  weakly_supervised_learning :: wsl_section

section \<open>The ramp-up weight of \<^verbatim>\<open>SSLSegAgent\<close>\<close>

text \<open>\<^verbatim>\<open>np.clip(a, a_min, a_max)\<close> on scalars: \<^verbatim>\<open>minimum(a_max, maximum(a, a_min))\<close>.\<close>

definition np_clip :: "int \<Rightarrow> int \<Rightarrow> int \<Rightarrow> int" where
  "np_clip a a_min a_max = min (max a a_min) a_max"

text \<open>\<^verbatim>\<open>SSLSegAgent.get_consistency_weight_with_rampup\<close> (ssl_em.py, lines 92 to 101).\<close>

definition get_consistency_weight_with_rampup :: "real \<Rightarrow> int \<Rightarrow> int option \<Rightarrow> real" where
  "get_consistency_weight_with_rampup w0 current rampup_length =
     (case rampup_length of
        None \<Rightarrow> w0
      | Some l \<Rightarrow>
          if l = 0 then w0
          else
            let current = np_clip current 0 l;
                phase = 1 - (real_of_int current + 0) / real_of_int l
            in w0 * exp (- 5 * phase * phase))"

text \<open>
  The weight applied in one step of \<^verbatim>\<open>SSLSegAgent.training\<close> (ssl_em.py, lines 157 to
  163), as a function of the configuration and of \<^verbatim>\<open>self.glob_it\<close>.
\<close>

definition ssl_applied_weight :: "config \<Rightarrow> int \<Rightarrow> real" where
  "ssl_applied_weight cfg glob_it =
     (let ssl_cfg = semi_supervised_learning cfg;
          consis_w0 = dict_get (ssl_consis_w ssl_cfg) (1 / 10);
          iter_sup = dict_get (ssl_iter_sup ssl_cfg) 0;
          ramp_up_length = dict_get (ssl_ramp_up_length ssl_cfg) (Some (iter_max cfg));
          consis_w = get_consistency_weight_with_rampup consis_w0 glob_it ramp_up_length
      in if glob_it < iter_sup then 0 else consis_w)"

text \<open>
  The weight applied in one step of \<^verbatim>\<open>WSL_MumfordShah.training\<close>
  (wsl_mumford_shah.py, lines 57 to 63). \<^verbatim>\<open>sigmoid_rampup\<close> is imported from
  \<^verbatim>\<open>pymic.util.ramps\<close>, which is not among the sources: it is a parameter.
\<close>

definition wsl_applied_weight :: "(int \<Rightarrow> int \<Rightarrow> real) \<Rightarrow> config \<Rightarrow> int \<Rightarrow> real" where
  "wsl_applied_weight sigmoid_rampup cfg glob_it =
     (let wsl_cfg = weakly_supervised_learning cfg;
          ramp_up_length = dict_get (wsl_ramp_up_length wsl_cfg) (Some (iter_max cfg));
          regular_w = 0
      in if glob_it > dict_get (wsl_iter_sup wsl_cfg) 0 then
           (let regular_w = dict_get (wsl_regularize_w wsl_cfg) (1 / 10)
            in case ramp_up_length of
                 None \<Rightarrow> regular_w
               | Some l \<Rightarrow>
                   if glob_it < l then regular_w * sigmoid_rampup glob_it l else regular_w)
         else regular_w)"

section \<open>Tensors, batches and data streams\<close>

text \<open>
  A tensor is the list of its samples along axis 0 (the sample axis); what a sample holds
  is left open. A network returns one tensor or, when it has several heads, a tuple or
  list of tensors.
\<close>

datatype 'o net_out = Tensor "'o list" | Tuple "'o list list"

text \<open>A batch of the labelled loader (keys \<^verbatim>\<open>image\<close> and \<^verbatim>\<open>label_prob\<close>).\<close>

record ('x, 'y) batch =
  image :: "'x list"
  label_prob :: "'y list"

text \<open>A batch of the unlabelled loader (\<^verbatim>\<open>with_label = False\<close>: key \<^verbatim>\<open>image\<close> only).\<close>

record 'x unlab_batch =
  unlab_image :: "'x list"

text \<open>
  \<^verbatim>\<open>torch.tensor_split(input, [n], dim = 0)\<close>: the slices \<^verbatim>\<open>input[:n]\<close> and
  \<^verbatim>\<open>input[n:]\<close> of a tensor. PyTorch accepts a tensor only: a tuple or list raises
  \<^verbatim>\<open>TypeError\<close>.
\<close>

definition tensor_split :: "'o net_out \<Rightarrow> nat \<Rightarrow> error + ('o net_out \<times> 'o net_out)" where
  "tensor_split input n =
     (case input of
        Tensor t \<Rightarrow> Inr (Tensor (take n t), Tensor (drop n t))
      | Tuple hs \<Rightarrow> Inl TypeError)"

text \<open>
  \<^verbatim>\<open>if(isinstance(p, tuple) or isinstance(p, list)): p = p[0]\<close>, the test both
  \<^verbatim>\<open>training\<close> methods make before the Dice evaluation.
\<close>

definition first_if_tuple :: "'o net_out \<Rightarrow> error + 'o list" where
  "first_if_tuple p =
     (case p of
        Tensor t \<Rightarrow> Inr t
      | Tuple hs \<Rightarrow> (case hs of [] \<Rightarrow> Inl IndexError | h # rest \<Rightarrow> Inr h))"

text \<open>
  A live iterator over a data loader. A loader is the function giving, for each \<open>k\<close>,
  the batches that the \<open>k\<close>-th iterator created over it yields (shuffling makes them
  differ from one iterator to the next). \<open>remaining\<close> is what the live iterator has
  still to yield and \<open>created\<close> counts the iterators created so far; \<open>pulled\<close> is a
  bookkeeping field counting the batches that \<^verbatim>\<open>next\<close> has returned.
\<close>

record 'b cursor =
  remaining :: "'b list"
  created :: nat
  pulled :: nat

text \<open>
  \<^verbatim>\<open>try: data = next(it)  except StopIteration: it = iter(loader); data = next(it)\<close>.
  The second \<^verbatim>\<open>next\<close> is outside any \<^verbatim>\<open>try\<close>: on a loader that yields nothing
  its \<^verbatim>\<open>StopIteration\<close> propagates.
\<close>

definition next_or_restart :: "(nat \<Rightarrow> 'b list) \<Rightarrow> 'b cursor \<Rightarrow> error + ('b \<times> 'b cursor)" where
  "next_or_restart loader c =
     (case remaining c of
        b # rest \<Rightarrow> Inr (b, c\<lparr>remaining := rest, pulled := Suc (pulled c)\<rparr>)
      | [] \<Rightarrow>
          (case loader (created c) of
             [] \<Rightarrow> Inl StopIteration
           | b # rest \<Rightarrow>
               Inr (b, \<lparr>remaining = rest, created = Suc (created c), pulled = Suc (pulled c)\<rparr>)))"

text \<open>\<^verbatim>\<open>for it in range(n): body\<close>, where the body does not read \<^verbatim>\<open>it\<close>.\<close>

fun for_range :: "nat \<Rightarrow> ('s \<Rightarrow> error + 's) \<Rightarrow> 's \<Rightarrow> error + 's" where
  "for_range 0 body s = Inr s"
| "for_range (Suc n) body s =
     (case body s of Inl e \<Rightarrow> Inl e | Inr s' \<Rightarrow> for_range n body s')"

section \<open>Epoch aggregation\<close>

text \<open>A value of the dictionary \<^verbatim>\<open>train_scalers\<close>: a float or a one-dimensional array.\<close>

datatype scalar = Scalar real | Vector "real list"

text \<open>
  \<^verbatim>\<open>np.asarray(rows).mean(axis = 0)\<close> for a list of vectors: the vectors are stacked
  and averaged per column. Vectors of different lengths do not stack to a two-dimensional
  array and the reduction fails (\<^verbatim>\<open>ValueError\<close> in current NumPy). On no rows at all
  NumPy returns NaN with a warning; the reals have no NaN, the model answers
  \<^verbatim>\<open>ValueError\<close> there, and \<^verbatim>\<open>training\<close> never gets there: with no iteration run it
  fails on the unbound weight variable (see \<open>ssl_train_scalers\<close> below).
\<close>

definition mean_axis0 :: "real list list \<Rightarrow> error + real list" where
  "mean_axis0 rows =
     (case rows of
        [] \<Rightarrow> Inl ValueError
      | r # rs \<Rightarrow>
          if list_all (\<lambda>q. length q = length r) rs
          then Inr (map (\<lambda>c. sum_list (map (\<lambda>q. q ! c) rows) / real (length rows))
                      [0 ..< length r])
          else Inl ValueError)"

text \<open>
  \<^verbatim>\<open>a.mean()\<close> of a one-dimensional array. On an empty array NumPy gives NaN, which
  the reals do not have; the theorems below use it on non-empty arrays.
\<close>

definition np_mean :: "real list \<Rightarrow> real" where
  "np_mean a = sum_list a / real (length a)"

section \<open>The collaborators and the state of a segmentation agent\<close>

text \<open>
  What both agents inherit from \<^verbatim>\<open>SegmentationAgent\<close> and use in \<^verbatim>\<open>training\<close>, none
  of it among the sources, so all of it parameters:
  \<^item> \<open>train_loader\<close>: \<^verbatim>\<open>self.train_loader\<close>;
  \<^item> \<open>net\<close>: \<^verbatim>\<open>self.net\<close> in training mode, as a function of the current parameters;
  \<^item> \<open>backward_and_step\<close>: \<^verbatim>\<open>optimizer.zero_grad()\<close>, \<^verbatim>\<open>loss.backward()\<close>,
    \<^verbatim>\<open>optimizer.step()\<close> and \<^verbatim>\<open>scheduler.step()\<close> together: the parameters after
    the step, from the parameters before, the network input, the batch and the weight
    inside \<^verbatim>\<open>loss\<close>;
  \<^item> \<open>classwise_dice\<close>: \<^verbatim>\<open>torch.argmax\<close>, \<^verbatim>\<open>get_soft_label\<close>,
    \<^verbatim>\<open>reshape_prediction_and_ground_truth\<close> and \<^verbatim>\<open>get_classwise_dice\<close> together:
    the Dice vector from \<^verbatim>\<open>class_num\<close>, a prediction tensor and the labels.
  \<^verbatim>\<open>convert_tensor_type\<close> and \<^verbatim>\<open>.to(device)\<close> change neither the samples nor their
  order and are left out.
\<close>

record ('p, 'x, 'y, 'o) seg_env =
  train_loader :: "nat \<Rightarrow> ('x, 'y) batch list"
  net :: "'p \<Rightarrow> 'x list \<Rightarrow> 'o net_out"
  backward_and_step :: "'p \<Rightarrow> 'x list \<Rightarrow> ('x, 'y) batch \<Rightarrow> real \<Rightarrow> 'p"
  classwise_dice :: "nat \<Rightarrow> 'o list \<Rightarrow> 'y list \<Rightarrow> real list"

text \<open>
  The attributes of the agent that \<^verbatim>\<open>training\<close> reads or writes. \<open>params\<close> stands for
  the state of network, optimizer and scheduler. \<open>forward_passes\<close> is a bookkeeping field
  counting the calls of \<^verbatim>\<open>self.net\<close>.
\<close>

record ('p, 'x, 'y) seg_agent =
  params :: 'p
  trainIter :: "('x, 'y) batch cursor"
  glob_it :: int
  forward_passes :: nat

section \<open>\<^verbatim>\<open>SSLSegAgent.training\<close>\<close>

text \<open>The dictionary handed to \<^verbatim>\<open>EntropyLoss\<close>.\<close>

record 'o loss_dict =
  prediction :: "'o net_out"
  softmax :: bool

text \<open>
  \<^verbatim>\<open>SSLSegAgent\<close> adds the unlabelled loader; \<^verbatim>\<open>self.get_loss_value\<close> (called here
  with four arguments) and \<^verbatim>\<open>EntropyLoss()\<close> are parameters.
\<close>

record ('p, 'x, 'y, 'o) ssl_env = "('p, 'x, 'y, 'o) seg_env" +
  train_loader_unlab :: "nat \<Rightarrow> 'x unlab_batch list"
  ssl_get_loss_value :: "('x, 'y) batch \<Rightarrow> 'x list \<Rightarrow> 'o net_out \<Rightarrow> 'y list \<Rightarrow> real"
  EntropyLoss :: "'o loss_dict \<Rightarrow> real"

record ('p, 'x, 'y) ssl_agent = "('p, 'x, 'y) seg_agent" +
  trainIter_unlab :: "'x unlab_batch cursor"

text \<open>
  The variables one iteration of the loop binds (ssl_em.py, lines 113 to 179);
  \<open>step_consis_w\<close> is the value the iteration assigns to \<^verbatim>\<open>consis_w\<close>.
\<close>

record ('x, 'y, 'o) ssl_locals =
  data_lab :: "('x, 'y) batch"
  data_unlab :: "'x unlab_batch"
  inputs :: "'x list"
  outputs :: "'o net_out"
  p0 :: "'o net_out"
  p1 :: "'o net_out"
  loss_sup :: real
  loss_unsup :: real
  step_consis_w :: real
  loss :: real
  dice_list :: "real list"

text \<open>
  The variables of \<^verbatim>\<open>training\<close> that live across iterations: the four accumulators and
  \<^verbatim>\<open>consis_w\<close>, which is unbound until the first iteration assigns it and is read after
  the loop. \<open>iterations\<close> is a bookkeeping field: the variables of every iteration so
  far, oldest first (Python keeps the latest binding only).
\<close>

record ('x, 'y, 'o) ssl_frame =
  train_loss :: real
  train_loss_sup :: real
  train_loss_unsup :: real
  train_dice_list :: "real list list"
  consis_w :: "real option"
  iterations :: "('x, 'y, 'o) ssl_locals list"

definition ssl_frame0 :: "('x, 'y, 'o) ssl_frame" where
  "ssl_frame0 =
     \<lparr>train_loss = 0, train_loss_sup = 0, train_loss_unsup = 0, train_dice_list = [],
      consis_w = None, iterations = []\<rparr>"

text \<open>The body of the loop (ssl_em.py, lines 113 to 180).\<close>

definition ssl_iteration ::
  "('p, 'x, 'y, 'o) ssl_env \<Rightarrow> config \<Rightarrow>
   ('p, 'x, 'y) ssl_agent \<times> ('x, 'y, 'o) ssl_frame \<Rightarrow>
   error + (('p, 'x, 'y) ssl_agent \<times> ('x, 'y, 'o) ssl_frame)" where
  "ssl_iteration env cfg s =
     (let ag = fst s; fr = snd s in
      case next_or_restart (train_loader env) (trainIter ag) of
        Inl e \<Rightarrow> Inl e
      | Inr got_lab \<Rightarrow>
      case next_or_restart (train_loader_unlab env) (trainIter_unlab ag) of
        Inl e \<Rightarrow> Inl e
      | Inr got_unlab \<Rightarrow>
          let data_lab = fst got_lab;
              data_unlab = fst got_unlab;
              x0 = image data_lab;
              y0 = label_prob data_lab;
              x1 = unlab_image data_unlab;
              inputs = x0 @ x1;
              outputs = net env (params ag) inputs;
              n0 = length x0
          in
          case tensor_split outputs n0 of
            Inl e \<Rightarrow> Inl e
          | Inr parts \<Rightarrow>
              let p0 = fst parts;
                  p1 = snd parts;
                  loss_sup = ssl_get_loss_value env data_lab x0 p0 y0;
                  loss_unsup = EntropyLoss env \<lparr>prediction = outputs, softmax = True\<rparr>;
                  consis_w = ssl_applied_weight cfg (glob_it ag);
                  loss = loss_sup + consis_w * loss_unsup;
                  params' = backward_and_step env (params ag) inputs data_lab consis_w
              in
              case first_if_tuple p0 of
                Inl e \<Rightarrow> Inl e
              | Inr p0_first \<Rightarrow>
                  let dice_list = classwise_dice env (class_num cfg) p0_first y0 in
                  Inr (ag\<lparr>params := params', trainIter := snd got_lab,
                          forward_passes := Suc (forward_passes ag),
                          trainIter_unlab := snd got_unlab\<rparr>,
                       fr\<lparr>train_loss := train_loss fr + loss,
                          train_loss_sup := train_loss_sup fr + loss_sup,
                          train_loss_unsup := train_loss_unsup fr + loss_unsup,
                          train_dice_list := train_dice_list fr @ [dice_list],
                          consis_w := Some consis_w,
                          iterations := iterations fr @
                            [\<lparr>data_lab = data_lab, data_unlab = data_unlab,
                              inputs = inputs, outputs = outputs, p0 = p0, p1 = p1,
                              loss_sup = loss_sup, loss_unsup = loss_unsup,
                              step_consis_w = consis_w, loss = loss,
                              dice_list = dice_list\<rparr>]\<rparr>))"

text \<open>
  The statements after the loop (ssl_em.py, lines 181 to 190). With \<^verbatim>\<open>iter_valid = 0\<close>
  line 181 divides by zero. With a negative \<^verbatim>\<open>iter_valid\<close> no iteration ran: lines
  181 to 185 raise nothing (NumPy only warns about the mean of no rows) and line 188 reads
  the unbound \<^verbatim>\<open>consis_w\<close>.
\<close>

definition ssl_train_scalers ::
  "config \<Rightarrow> ('x, 'y, 'o) ssl_frame \<Rightarrow> error + (string \<rightharpoonup> scalar)" where
  "ssl_train_scalers cfg fr =
     (if iter_valid cfg = 0 then Inl ZeroDivisionError
      else
        let train_avg_loss = train_loss fr / real_of_int (iter_valid cfg);
            train_avg_loss_sup = train_loss_sup fr / real_of_int (iter_valid cfg);
            train_avg_loss_unsup = train_loss_unsup fr / real_of_int (iter_valid cfg)
        in
        case consis_w fr of
          None \<Rightarrow> Inl UnboundLocalError
        | Some w \<Rightarrow>
            (case mean_axis0 (train_dice_list fr) of
               Inl e \<Rightarrow> Inl e
             | Inr train_cls_dice \<Rightarrow>
                 let train_avg_dice = np_mean train_cls_dice in
                 Inr [''loss'' \<mapsto> Scalar train_avg_loss,
                      ''loss_sup'' \<mapsto> Scalar train_avg_loss_sup,
                      ''loss_unsup'' \<mapsto> Scalar train_avg_loss_unsup,
                      ''consis_w'' \<mapsto> Scalar w,
                      ''avg_dice'' \<mapsto> Scalar train_avg_dice,
                      ''class_dice'' \<mapsto> Vector train_cls_dice]))"

text \<open>The loop of \<^verbatim>\<open>training\<close>: \<^verbatim>\<open>for it in range(iter_valid)\<close>.\<close>

definition ssl_training_loop ::
  "('p, 'x, 'y, 'o) ssl_env \<Rightarrow> config \<Rightarrow> ('p, 'x, 'y) ssl_agent \<Rightarrow>
   error + (('p, 'x, 'y) ssl_agent \<times> ('x, 'y, 'o) ssl_frame)" where
  "ssl_training_loop env cfg ag =
     for_range (nat (iter_valid cfg)) (ssl_iteration env cfg) (ag, ssl_frame0)"

text \<open>
  \<^verbatim>\<open>SSLSegAgent.training\<close> (ssl_em.py, lines 103 to 190): the agent as the method
  leaves it, and the dictionary it returns.
\<close>

definition ssl_training ::
  "('p, 'x, 'y, 'o) ssl_env \<Rightarrow> config \<Rightarrow> ('p, 'x, 'y) ssl_agent \<Rightarrow>
   error + (('p, 'x, 'y) ssl_agent \<times> (string \<rightharpoonup> scalar))" where
  "ssl_training env cfg ag =
     (case ssl_training_loop env cfg ag of
        Inl e \<Rightarrow> Inl e
      | Inr (ag', fr) \<Rightarrow>
          (case ssl_train_scalers cfg fr of
             Inl e \<Rightarrow> Inl e
           | Inr train_scalers \<Rightarrow> Inr (ag', train_scalers)))"

section \<open>\<^verbatim>\<open>WSL_MumfordShah.training\<close>\<close>

text \<open>The dictionary handed to the Mumford-Shah loss (keys \<^verbatim>\<open>prediction\<close>, \<^verbatim>\<open>image\<close>).\<close>

record ('o, 'x) reg_loss_dict =
  reg_prediction :: "'o net_out"
  reg_image :: "'x list"

text \<open>
  \<^verbatim>\<open>self.get_loss_value\<close> (called here with three arguments), the loss object
  \<^verbatim>\<open>MumfordShahLoss(wsl_cfg)\<close> and \<^verbatim>\<open>sigmoid_rampup\<close> are parameters. Names that
  the semi-supervised module uses too carry the prefix \<open>wsl_\<close> here.
\<close>

record ('p, 'x, 'y, 'o) wsl_env = "('p, 'x, 'y, 'o) seg_env" +
  wsl_get_loss_value :: "('x, 'y) batch \<Rightarrow> 'o net_out \<Rightarrow> 'y list \<Rightarrow> real"
  MumfordShahLoss :: "wsl_section \<Rightarrow> ('o, 'x) reg_loss_dict \<Rightarrow> real"
  sigmoid_rampup :: "int \<Rightarrow> int \<Rightarrow> real"

text \<open>
  The variables one iteration binds (wsl_mumford_shah.py, lines 36 to 79);
  \<open>step_regular_w\<close> is the value the iteration leaves in \<^verbatim>\<open>regular_w\<close>.
\<close>

record ('x, 'y, 'o) wsl_locals =
  wsl_data :: "('x, 'y) batch"
  wsl_inputs :: "'x list"
  wsl_outputs :: "'o net_out"
  wsl_loss_sup :: real
  loss_reg :: real
  step_regular_w :: real
  wsl_loss :: real
  wsl_dice_list :: "real list"

text \<open>
  The variables that live across iterations: the accumulators and \<^verbatim>\<open>regular_w\<close>;
  \<open>wsl_iterations\<close> is the bookkeeping field, as in the semi-supervised frame.
\<close>

record ('x, 'y, 'o) wsl_frame =
  wsl_train_loss :: real
  wsl_train_loss_sup :: real
  train_loss_reg :: real
  wsl_train_dice_list :: "real list list"
  regular_w :: "real option"
  wsl_iterations :: "('x, 'y, 'o) wsl_locals list"

definition wsl_frame0 :: "('x, 'y, 'o) wsl_frame" where
  "wsl_frame0 =
     \<lparr>wsl_train_loss = 0, wsl_train_loss_sup = 0, train_loss_reg = 0,
      wsl_train_dice_list = [], regular_w = None, wsl_iterations = []\<rparr>"

text \<open>The body of the loop (wsl_mumford_shah.py, lines 36 to 80).\<close>

definition wsl_iteration ::
  "('p, 'x, 'y, 'o) wsl_env \<Rightarrow> config \<Rightarrow>
   ('p, 'x, 'y) seg_agent \<times> ('x, 'y, 'o) wsl_frame \<Rightarrow>
   error + (('p, 'x, 'y) seg_agent \<times> ('x, 'y, 'o) wsl_frame)" where
  "wsl_iteration env cfg s =
     (let ag = fst s; fr = snd s in
      case next_or_restart (train_loader env) (trainIter ag) of
        Inl e \<Rightarrow> Inl e
      | Inr got \<Rightarrow>
          let data = fst got;
              inputs = image data;
              y = label_prob data;
              outputs = net env (params ag) inputs;
              loss_sup = wsl_get_loss_value env data outputs y;
              loss_reg = MumfordShahLoss env (weakly_supervised_learning cfg)
                           \<lparr>reg_prediction = outputs, reg_image = inputs\<rparr>;
              regular_w = wsl_applied_weight (sigmoid_rampup env) cfg (glob_it ag);
              loss = loss_sup + regular_w * loss_reg;
              params' = backward_and_step env (params ag) inputs data regular_w
          in
          case first_if_tuple outputs of
            Inl e \<Rightarrow> Inl e
          | Inr outputs_first \<Rightarrow>
              let dice_list = classwise_dice env (class_num cfg) outputs_first y in
              Inr (ag\<lparr>params := params', trainIter := snd got,
                      forward_passes := Suc (forward_passes ag)\<rparr>,
                   fr\<lparr>wsl_train_loss := wsl_train_loss fr + loss,
                      wsl_train_loss_sup := wsl_train_loss_sup fr + loss_sup,
                      train_loss_reg := train_loss_reg fr + loss_reg,
                      wsl_train_dice_list := wsl_train_dice_list fr @ [dice_list],
                      regular_w := Some regular_w,
                      wsl_iterations := wsl_iterations fr @
                        [\<lparr>wsl_data = data, wsl_inputs = inputs, wsl_outputs = outputs,
                          wsl_loss_sup = loss_sup, loss_reg = loss_reg,
                          step_regular_w = regular_w, wsl_loss = loss,
                          wsl_dice_list = dice_list\<rparr>]\<rparr>))"

text \<open>
  The statements after the loop (wsl_mumford_shah.py, lines 81 to 90), which fail as
  those of the semi-supervised agent do.
\<close>

definition wsl_train_scalers ::
  "config \<Rightarrow> ('x, 'y, 'o) wsl_frame \<Rightarrow> error + (string \<rightharpoonup> scalar)" where
  "wsl_train_scalers cfg fr =
     (if iter_valid cfg = 0 then Inl ZeroDivisionError
      else
        let train_avg_loss = wsl_train_loss fr / real_of_int (iter_valid cfg);
            train_avg_loss_sup = wsl_train_loss_sup fr / real_of_int (iter_valid cfg);
            train_avg_loss_reg = train_loss_reg fr / real_of_int (iter_valid cfg)
        in
        case regular_w fr of
          None \<Rightarrow> Inl UnboundLocalError
        | Some w \<Rightarrow>
            (case mean_axis0 (wsl_train_dice_list fr) of
               Inl e \<Rightarrow> Inl e
             | Inr train_cls_dice \<Rightarrow>
                 let train_avg_dice = np_mean train_cls_dice in
                 Inr [''loss'' \<mapsto> Scalar train_avg_loss,
                      ''loss_sup'' \<mapsto> Scalar train_avg_loss_sup,
                      ''loss_reg'' \<mapsto> Scalar train_avg_loss_reg,
                      ''regular_w'' \<mapsto> Scalar w,
                      ''avg_dice'' \<mapsto> Scalar train_avg_dice,
                      ''class_dice'' \<mapsto> Vector train_cls_dice]))"

definition wsl_training_loop ::
  "('p, 'x, 'y, 'o) wsl_env \<Rightarrow> config \<Rightarrow> ('p, 'x, 'y) seg_agent \<Rightarrow>
   error + (('p, 'x, 'y) seg_agent \<times> ('x, 'y, 'o) wsl_frame)" where
  "wsl_training_loop env cfg ag =
     for_range (nat (iter_valid cfg)) (wsl_iteration env cfg) (ag, wsl_frame0)"

text \<open>\<^verbatim>\<open>WSL_MumfordShah.training\<close> (wsl_mumford_shah.py, lines 24 to 90).\<close>

definition wsl_training ::
  "('p, 'x, 'y, 'o) wsl_env \<Rightarrow> config \<Rightarrow> ('p, 'x, 'y) seg_agent \<Rightarrow>
   error + (('p, 'x, 'y) seg_agent \<times> (string \<rightharpoonup> scalar))" where
  "wsl_training env cfg ag =
     (case wsl_training_loop env cfg ag of
        Inl e \<Rightarrow> Inl e
      | Inr (ag', fr) \<Rightarrow>
          (case wsl_train_scalers cfg fr of
             Inl e \<Rightarrow> Inl e
           | Inr train_scalers \<Rightarrow> Inr (ag', train_scalers)))"

section \<open>A small instance\<close>

text \<open>
  Concrete collaborators on which the theorems below are exercised. Samples, labels and
  predictions are integers, the network multiplies every sample by its single parameter,
  and an optimisation step adds one to that parameter. The labelled loader yields two
  batches of two samples per pass, the unlabelled loader one batch of three.
\<close>

definition ex_loader :: "nat \<Rightarrow> (int, int) batch list" where
  "ex_loader k =
     [\<lparr>image = [1, 2], label_prob = [1, 0]\<rparr>, \<lparr>image = [3, 4], label_prob = [0, 1]\<rparr>]"

definition ex_loader_unlab :: "nat \<Rightarrow> int unlab_batch list" where
  "ex_loader_unlab k = [\<lparr>unlab_image = [5, 6, 7]\<rparr>]"

definition tensor_size :: "'o net_out \<Rightarrow> real" where
  "tensor_size p = (case p of Tensor t \<Rightarrow> real (length t) | Tuple hs \<Rightarrow> real (length hs))"

definition ex_ssl_env :: "(int, int, int, int) ssl_env" where
  "ex_ssl_env =
     \<lparr>train_loader = ex_loader,
      net = (\<lambda>p xs. Tensor (map (\<lambda>x. p * x) xs)),
      backward_and_step = (\<lambda>p xs d w. p + 1),
      classwise_dice = (\<lambda>k p y. map (\<lambda>c. 1 / (1 + real c)) [0 ..< k]),
      train_loader_unlab = ex_loader_unlab,
      ssl_get_loss_value = (\<lambda>d x p y. tensor_size p),
      EntropyLoss = (\<lambda>d. tensor_size (prediction d) / 10)\<rparr>"

text \<open>The same collaborators with a two-headed network.\<close>

definition ex_ssl_env_heads :: "(int, int, int, int) ssl_env" where
  "ex_ssl_env_heads =
     ex_ssl_env\<lparr>net := (\<lambda>p xs. Tuple [map (\<lambda>x. p * x) xs, xs])\<rparr>"

definition ex_cursor :: "(int, int) batch cursor" where
  "ex_cursor = \<lparr>remaining = ex_loader 0, created = 1, pulled = 0\<rparr>"

definition ex_cursor_unlab :: "int unlab_batch cursor" where
  "ex_cursor_unlab = \<lparr>remaining = ex_loader_unlab 0, created = 1, pulled = 0\<rparr>"

definition ex_ssl_agent :: "(int, int, int) ssl_agent" where
  "ex_ssl_agent =
     \<lparr>params = 1, trainIter = ex_cursor, glob_it = 50, forward_passes = 0,
      trainIter_unlab = ex_cursor_unlab\<rparr>"

text \<open>
  Modelled from the spec: \<^verbatim>\<open>pymic.util.ramps.sigmoid_rampup\<close> is not among the
  sources. The spec describes its curve as the equivalent of the exponential one: the
  step clamped to the ramp, \<open>phase = 1 - step / ramp_length\<close>, and a factor
  \<open>exp (- 5 * phase\<^sup>2)\<close> rising to 1.
\<close>

definition sigmoid_rampup_spec :: "int \<Rightarrow> int \<Rightarrow> real" where
  "sigmoid_rampup_spec current rampup_length =
     (if rampup_length = 0 then 1
      else exp (- 5 * (1 - real_of_int (np_clip current 0 rampup_length)
                           / real_of_int rampup_length)\<^sup>2))"

definition ex_wsl_env :: "(int, int, int, int) wsl_env" where
  "ex_wsl_env =
     \<lparr>train_loader = ex_loader,
      net = (\<lambda>p xs. Tensor (map (\<lambda>x. p * x) xs)),
      backward_and_step = (\<lambda>p xs d w. p + 1),
      classwise_dice = (\<lambda>k p y. map (\<lambda>c. 1 / (1 + real c)) [0 ..< k]),
      wsl_get_loss_value = (\<lambda>d p y. tensor_size p),
      MumfordShahLoss = (\<lambda>c d. tensor_size (reg_prediction d) / 10),
      sigmoid_rampup = sigmoid_rampup_spec\<rparr>"

definition ex_wsl_env_heads :: "(int, int, int, int) wsl_env" where
  "ex_wsl_env_heads =
     ex_wsl_env\<lparr>net := (\<lambda>p xs. Tuple [map (\<lambda>x. p * x) xs, xs])\<rparr>"

definition ex_wsl_agent :: "(int, int, int) seg_agent" where
  "ex_wsl_agent = \<lparr>params = 1, trainIter = ex_cursor, glob_it = 50, forward_passes = 0\<rparr>"

text \<open>
  Two iterations per epoch, two classes, no ramp (\<^verbatim>\<open>ramp_up_length = None\<close>) and the
  default base weights and thresholds.
\<close>

definition ex_cfg :: config where
  "ex_cfg =
     \<lparr>class_num = 2, iter_valid = 2, iter_max = 1000,
      semi_supervised_learning =
        \<lparr>ssl_consis_w = None, ssl_iter_sup = None, ssl_ramp_up_length = Some None\<rparr>,
      weakly_supervised_learning =
        \<lparr>wsl_regularize_w = None, wsl_iter_sup = None, wsl_ramp_up_length = Some None\<rparr>\<rparr>"

text \<open>
  The spec's scenario: base weight 0.2, \<^verbatim>\<open>iter_sup = 100\<close>, \<^verbatim>\<open>ramp_up_length\<close> unset
  (so that the ramp length is \<^verbatim>\<open>iter_max = 1000\<close>).
\<close>

definition ex_cfg_gated :: config where
  "ex_cfg_gated =
     \<lparr>class_num = 2, iter_valid = 2, iter_max = 1000,
      semi_supervised_learning =
        \<lparr>ssl_consis_w = Some (1 / 5), ssl_iter_sup = Some 100, ssl_ramp_up_length = None\<rparr>,
      weakly_supervised_learning =
        \<lparr>wsl_regularize_w = None, wsl_iter_sup = Some 100, wsl_ramp_up_length = None\<rparr>\<rparr>"

text \<open>
  A weakly-supervised configuration whose base weight \<^verbatim>\<open>regularize_w\<close> is 0, with
  \<^verbatim>\<open>iter_sup = 100\<close>.
\<close>

definition ex_cfg_zero_w :: config where
  "ex_cfg_zero_w =
     \<lparr>class_num = 2, iter_valid = 2, iter_max = 1000,
      semi_supervised_learning =
        \<lparr>ssl_consis_w = None, ssl_iter_sup = None, ssl_ramp_up_length = Some None\<rparr>,
      weakly_supervised_learning =
        \<lparr>wsl_regularize_w = Some 0, wsl_iter_sup = Some 100, wsl_ramp_up_length = Some None\<rparr>\<rparr>"

text \<open>
  Collaborators whose training dynamics are visible: predictions are reals, the network
  multiplies every sample by its parameter, the entropy loss is the sum of the
  predictions, and an optimisation step adds the weight inside \<^verbatim>\<open>loss\<close> to the
  parameter.
\<close>

definition ex_ssl_env_dyn :: "(real, int, int, real) ssl_env" where
  "ex_ssl_env_dyn =
     \<lparr>train_loader = ex_loader,
      net = (\<lambda>p xs. Tensor (map (\<lambda>x. p * real_of_int x) xs)),
      backward_and_step = (\<lambda>p xs d w. p + w),
      classwise_dice = (\<lambda>k p y. map (\<lambda>c. 1 / (1 + real c)) [0 ..< k]),
      train_loader_unlab = ex_loader_unlab,
      ssl_get_loss_value = (\<lambda>d x p y. tensor_size p),
      EntropyLoss = (\<lambda>d. case prediction d of Tensor t \<Rightarrow> sum_list t | Tuple hs \<Rightarrow> 0)\<rparr>"

definition ex_ssl_agent_dyn :: "(real, int, int) ssl_agent" where
  "ex_ssl_agent_dyn =
     \<lparr>params = 1, trainIter = ex_cursor, glob_it = 50, forward_passes = 0,
      trainIter_unlab = ex_cursor_unlab\<rparr>"

section \<open>Notions used in the statements\<close>

text \<open>
  For stating what a data stream delivers: the first \<open>n\<close> batches of what is left in
  the live iterator followed by the passes of the iterators created after it, in the
  order of their creation (\<open>n\<close> passes are enough when no pass is empty).
\<close>

definition stream_prefix :: "(nat \<Rightarrow> 'b list) \<Rightarrow> 'b cursor \<Rightarrow> nat \<Rightarrow> 'b list" where
  "stream_prefix loader c n =
     take n (remaining c @ concat (map loader [created c ..< created c + n]))"


text \<open>
  For stating the aggregation: the list, for each class \<open>c < k\<close>, of the sum of the
  \<open>c\<close>-th entries of the rows divided by \<open>n\<close>.
\<close>

definition classwise_mean :: "real list list \<Rightarrow> int \<Rightarrow> nat \<Rightarrow> real list" where
  "classwise_mean rows n k =
     map (\<lambda>c. sum_list (map (\<lambda>q. q ! c) rows) / real_of_int n) [0 ..< k]"

text \<open>
  For observing a run: the variables of \<^verbatim>\<open>training\<close> after the first \<open>n\<close> iterations
  of the loop (\<open>None\<close> if one of them raised), and an entry of the dictionary that
  \<^verbatim>\<open>training\<close> returned (\<open>None\<close> if it raised or has no such key).
\<close>

definition ssl_frame_after ::
  "('p, 'x, 'y, 'o) ssl_env \<Rightarrow> config \<Rightarrow> ('p, 'x, 'y) ssl_agent \<Rightarrow> nat \<Rightarrow>
   ('x, 'y, 'o) ssl_frame option" where
  "ssl_frame_after env cfg ag n =
     (case for_range n (ssl_iteration env cfg) (ag, ssl_frame0) of
        Inl e \<Rightarrow> None
      | Inr s \<Rightarrow> Some (snd s))"

definition wsl_frame_after ::
  "('p, 'x, 'y, 'o) wsl_env \<Rightarrow> config \<Rightarrow> ('p, 'x, 'y) seg_agent \<Rightarrow> nat \<Rightarrow>
   ('x, 'y, 'o) wsl_frame option" where
  "wsl_frame_after env cfg ag n =
     (case for_range n (wsl_iteration env cfg) (ag, wsl_frame0) of
        Inl e \<Rightarrow> None
      | Inr s \<Rightarrow> Some (snd s))"

definition scalar_entry :: "error + ('a \<times> (string \<rightharpoonup> scalar)) \<Rightarrow> string \<Rightarrow> scalar option" where
  "scalar_entry r k = (case r of Inl e \<Rightarrow> None | Inr res \<Rightarrow> snd res k)"

section \<open>Properties of the ramp-up weight\<close>

lemma rampup_Some:
  "l \<noteq> 0 \<Longrightarrow> get_consistency_weight_with_rampup w0 c (Some l) =
     w0 * exp (- 5 * (1 - real_of_int (np_clip c 0 l) / real_of_int l)\<^sup>2)"
  by (simp add: get_consistency_weight_with_rampup_def Let_def power2_eq_square mult.assoc)

lemma rampup_mono:
  assumes "0 \<le> w0" "0 < l" "0 \<le> s" "s \<le> t" "t \<le> l"
  shows "get_consistency_weight_with_rampup w0 s (Some l)
       \<le> get_consistency_weight_with_rampup w0 t (Some l)"
proof -
  have cs: "np_clip s 0 l = s" and ct: "np_clip t 0 l = t"
    using assms by (simp_all add: np_clip_def)
  let ?ps = "1 - real_of_int s / real_of_int l"
  let ?pt = "1 - real_of_int t / real_of_int l"
  have "real_of_int s / real_of_int l \<le> real_of_int t / real_of_int l"
    using assms by (simp add: divide_right_mono)
  moreover have "real_of_int t / real_of_int l \<le> 1"
    using assms by simp
  ultimately have "0 \<le> ?pt" "?pt \<le> ?ps" by simp_all
  then have "?pt\<^sup>2 \<le> ?ps\<^sup>2" by (simp add: power_mono)
  then have "exp (- 5 * ?ps\<^sup>2) \<le> exp (- 5 * ?pt\<^sup>2)" by simp
  then have "w0 * exp (- 5 * ?ps\<^sup>2) \<le> w0 * exp (- 5 * ?pt\<^sup>2)"
    using assms(1) by (rule mult_left_mono)
  then show ?thesis
    using assms(2) by (simp add: rampup_Some cs ct)
qed

text \<open>
  C5. For a non-negative base weight \<open>w0\<close> and a positive ramp length \<open>l\<close>, the ramp-up
  weight is non-decreasing in the step on \<open>[0, l]\<close>, is \<open>w0\<close> at step \<open>l\<close> and
  \<open>w0 * exp (- 5)\<close> at step \<open>0\<close>, is \<open>w0 * exp (- 5 * (1 - step / l)\<^sup>2)\<close> for a step
  in between, and takes a step outside \<open>[0, l]\<close> to the nearer end of the ramp. With
  the ramp length \<^verbatim>\<open>None\<close> or zero it returns \<open>w0\<close> whatever the step.
\<close>

theorem rampup_weight_curve:
  assumes "0 \<le> w0" and "0 < l"
  shows "(0 \<le> s \<and> s \<le> t \<and> t \<le> l \<longrightarrow>
            get_consistency_weight_with_rampup w0 s (Some l)
          \<le> get_consistency_weight_with_rampup w0 t (Some l))
       \<and> get_consistency_weight_with_rampup w0 l (Some l) = w0
       \<and> get_consistency_weight_with_rampup w0 0 (Some l) = w0 * exp (- 5)
       \<and> (0 \<le> s \<and> s \<le> l \<longrightarrow>
            get_consistency_weight_with_rampup w0 s (Some l)
          = w0 * exp (- 5 * (1 - real_of_int s / real_of_int l)\<^sup>2))
       \<and> (s < 0 \<longrightarrow> get_consistency_weight_with_rampup w0 s (Some l)
                     = get_consistency_weight_with_rampup w0 0 (Some l))
       \<and> (l < s \<longrightarrow> get_consistency_weight_with_rampup w0 s (Some l)
                     = get_consistency_weight_with_rampup w0 l (Some l))
       \<and> get_consistency_weight_with_rampup w0 s None = w0
       \<and> get_consistency_weight_with_rampup w0 s (Some 0) = w0"
proof -
  have nz: "l \<noteq> 0" using assms(2) by simp
  have mono: "0 \<le> s \<and> s \<le> t \<and> t \<le> l \<longrightarrow>
            get_consistency_weight_with_rampup w0 s (Some l)
          \<le> get_consistency_weight_with_rampup w0 t (Some l)"
    using rampup_mono [OF assms] by blast
  have top: "get_consistency_weight_with_rampup w0 l (Some l) = w0"
    using assms(2) by (simp add: rampup_Some np_clip_def)
  have bot: "get_consistency_weight_with_rampup w0 0 (Some l) = w0 * exp (- 5)"
    using assms(2) by (simp add: rampup_Some np_clip_def)
  have mid: "0 \<le> s \<and> s \<le> l \<longrightarrow>
            get_consistency_weight_with_rampup w0 s (Some l)
          = w0 * exp (- 5 * (1 - real_of_int s / real_of_int l)\<^sup>2)"
    using nz by (simp add: rampup_Some np_clip_def)
  have lo: "s < 0 \<longrightarrow> get_consistency_weight_with_rampup w0 s (Some l)
                     = get_consistency_weight_with_rampup w0 0 (Some l)"
    using assms(2) by (simp add: rampup_Some np_clip_def)
  have hi: "l < s \<longrightarrow> get_consistency_weight_with_rampup w0 s (Some l)
                     = get_consistency_weight_with_rampup w0 l (Some l)"
    using assms(2) by (simp add: rampup_Some np_clip_def)
  have none: "get_consistency_weight_with_rampup w0 s None = w0"
    by (simp add: get_consistency_weight_with_rampup_def)
  have zero: "get_consistency_weight_with_rampup w0 s (Some 0) = w0"
    by (simp add: get_consistency_weight_with_rampup_def)
  show ?thesis using mono top bot mid lo hi none zero by blast
qed

theorem rampup_weight_curve_witness:
  "get_consistency_weight_with_rampup (1 / 10) 2 (Some 10)
     \<le> get_consistency_weight_with_rampup (1 / 10) 5 (Some 10)
   \<and> get_consistency_weight_with_rampup (1 / 10) 10 (Some 10) = 1 / 10
   \<and> get_consistency_weight_with_rampup (1 / 10) 0 (Some 10) = (1 / 10) * exp (- 5)
   \<and> get_consistency_weight_with_rampup (1 / 10) 2 (Some 10)
       = (1 / 10) * exp (- 5 * (1 - real_of_int 2 / real_of_int 10)\<^sup>2)"
  using rampup_weight_curve [of "1 / 10" 10 2 5] by simp


section \<open>Data streams and the loop\<close>

lemma next_or_restart_pulled:
  "next_or_restart loader c = Inr got \<Longrightarrow> pulled (snd got) = Suc (pulled c)"
  by (auto simp: next_or_restart_def split: list.splits)

lemma next_or_restart_error:
  "next_or_restart loader c = Inl e \<Longrightarrow> e = StopIteration \<and> loader (created c) = []"
  by (auto simp: next_or_restart_def split: list.splits)

lemma next_or_restart_total:
  "loader (created c) \<noteq> [] \<or> remaining c \<noteq> [] \<Longrightarrow> \<exists>got. next_or_restart loader c = Inr got"
  by (auto simp: next_or_restart_def split: list.splits)

lemma ssl_iteration_Inr:
  assumes "ssl_iteration env cfg (ag, fr) = Inr (ag', fr')"
  shows "\<exists>lv got_lab got_unlab.
      next_or_restart (train_loader env) (trainIter ag) = Inr got_lab
    \<and> next_or_restart (train_loader_unlab env) (trainIter_unlab ag) = Inr got_unlab
    \<and> data_lab lv = fst got_lab \<and> data_unlab lv = fst got_unlab
    \<and> trainIter ag' = snd got_lab \<and> trainIter_unlab ag' = snd got_unlab
    \<and> inputs lv = image (data_lab lv) @ unlab_image (data_unlab lv)
    \<and> outputs lv = net env (params ag) (inputs lv)
    \<and> tensor_split (outputs lv) (length (image (data_lab lv))) = Inr (p0 lv, p1 lv)
    \<and> loss_sup lv = ssl_get_loss_value env (data_lab lv) (image (data_lab lv)) (p0 lv)
                       (label_prob (data_lab lv))
    \<and> loss_unsup lv = EntropyLoss env \<lparr>prediction = outputs lv, softmax = True\<rparr>
    \<and> loss lv = loss_sup lv + ssl_applied_weight cfg (glob_it ag) * loss_unsup lv
    \<and> params ag' = backward_and_step env (params ag) (inputs lv) (data_lab lv)
                      (ssl_applied_weight cfg (glob_it ag))
    \<and> glob_it ag' = glob_it ag
    \<and> forward_passes ag' = Suc (forward_passes ag)
    \<and> train_loss fr' = train_loss fr + loss lv
    \<and> train_loss_sup fr' = train_loss_sup fr + loss_sup lv
    \<and> train_loss_unsup fr' = train_loss_unsup fr + loss_unsup lv
    \<and> train_dice_list fr' = train_dice_list fr @ [dice_list lv]
    \<and> consis_w fr' = Some (ssl_applied_weight cfg (glob_it ag))
    \<and> iterations fr' = iterations fr @ [lv]"
  using assms
  by (auto simp: ssl_iteration_def Let_def split: sum.splits)


lemma ssl_iteration_total:
  assumes "\<forall>k. train_loader env k \<noteq> []" and "\<forall>k. train_loader_unlab env k \<noteq> []"
    and "\<forall>p xs. \<exists>t. net env p xs = Tensor t"
  shows "\<exists>s'. ssl_iteration env cfg s = Inr s'"
proof -
  obtain got_lab where 1: "next_or_restart (train_loader env) (trainIter (fst s)) = Inr got_lab"
    using next_or_restart_total [of "train_loader env" "trainIter (fst s)"] assms(1) by blast
  obtain got_unlab where
    2: "next_or_restart (train_loader_unlab env) (trainIter_unlab (fst s)) = Inr got_unlab"
    using next_or_restart_total [of "train_loader_unlab env" "trainIter_unlab (fst s)"] assms(2)
    by blast
  obtain t where 3: "net env (params (fst s))
      (image (fst got_lab) @ unlab_image (fst got_unlab)) = Tensor t"
    using assms(3) by blast
  show ?thesis
    by (simp add: ssl_iteration_def Let_def 1 2 3 tensor_split_def first_if_tuple_def)
qed

lemma ssl_iteration_no_StopIteration:
  assumes "\<forall>k. train_loader env k \<noteq> []" and "\<forall>k. train_loader_unlab env k \<noteq> []"
  shows "ssl_iteration env cfg s \<noteq> Inl StopIteration"
proof -
  obtain got_lab where 1: "next_or_restart (train_loader env) (trainIter (fst s)) = Inr got_lab"
    using next_or_restart_total [of "train_loader env" "trainIter (fst s)"] assms(1) by blast
  obtain got_unlab where
    2: "next_or_restart (train_loader_unlab env) (trainIter_unlab (fst s)) = Inr got_unlab"
    using next_or_restart_total [of "train_loader_unlab env" "trainIter_unlab (fst s)"] assms(2)
    by blast
  show ?thesis
    by (auto simp: ssl_iteration_def Let_def 1 2 tensor_split_def first_if_tuple_def
        split: net_out.splits list.splits)
qed

lemma for_range_total:
  assumes "\<And>s. \<exists>s'. body s = Inr s'"
  shows "\<exists>s'. for_range n body s = Inr s'"
proof (induction n arbitrary: s)
  case 0
  show ?case by simp
next
  case (Suc n)
  obtain s1 where "body s = Inr s1" using assms by blast
  then show ?case using Suc.IH [of s1] by simp
qed

lemma for_range_error:
  assumes "\<And>s. body s \<noteq> Inl e"
  shows "for_range n body s \<noteq> Inl e"
proof (induction n arbitrary: s)
  case 0
  show ?case by simp
next
  case (Suc n)
  show ?case
  proof (cases "body s")
    case (Inl e')
    then show ?thesis using assms [of s] by auto
  next
    case (Inr s1)
    then show ?thesis using Suc.IH [of s1] by simp
  qed
qed

lemma ssl_loop_Inr:
  assumes "for_range n (ssl_iteration env cfg) (ag, fr) = Inr (ag', fr')"
  shows "\<exists>hs. length hs = n
    \<and> iterations fr' = iterations fr @ hs
    \<and> train_loss fr' = train_loss fr + sum_list (map loss hs)
    \<and> train_loss_sup fr' = train_loss_sup fr + sum_list (map loss_sup hs)
    \<and> train_loss_unsup fr' = train_loss_unsup fr + sum_list (map loss_unsup hs)
    \<and> train_dice_list fr' = train_dice_list fr @ map dice_list hs
    \<and> glob_it ag' = glob_it ag
    \<and> forward_passes ag' = forward_passes ag + n
    \<and> pulled (trainIter ag') = pulled (trainIter ag) + n
    \<and> pulled (trainIter_unlab ag') = pulled (trainIter_unlab ag) + n
    \<and> consis_w fr' = (if n = 0 then consis_w fr else Some (ssl_applied_weight cfg (glob_it ag)))
    \<and> (\<forall>lv \<in> set hs.
          loss lv = loss_sup lv + ssl_applied_weight cfg (glob_it ag) * loss_unsup lv
        \<and> loss_unsup lv = EntropyLoss env \<lparr>prediction = outputs lv, softmax = True\<rparr>)"
  using assms
proof (induction n arbitrary: ag fr)
  case 0
  then show ?case by simp
next
  case (Suc n)
  from Suc.prems obtain ag1 fr1 where
    step: "ssl_iteration env cfg (ag, fr) = Inr (ag1, fr1)" and
    rest: "for_range n (ssl_iteration env cfg) (ag1, fr1) = Inr (ag', fr')"
    by (auto split: sum.splits)
  from ssl_iteration_Inr [OF step] obtain lv got_lab got_unlab where
    f: "next_or_restart (train_loader env) (trainIter ag) = Inr got_lab"
       "next_or_restart (train_loader_unlab env) (trainIter_unlab ag) = Inr got_unlab"
       "trainIter ag1 = snd got_lab" "trainIter_unlab ag1 = snd got_unlab"
       "loss_unsup lv = EntropyLoss env \<lparr>prediction = outputs lv, softmax = True\<rparr>"
       "loss lv = loss_sup lv + ssl_applied_weight cfg (glob_it ag) * loss_unsup lv"
       "glob_it ag1 = glob_it ag"
       "forward_passes ag1 = Suc (forward_passes ag)"
       "train_loss fr1 = train_loss fr + loss lv"
       "train_loss_sup fr1 = train_loss_sup fr + loss_sup lv"
       "train_loss_unsup fr1 = train_loss_unsup fr + loss_unsup lv"
       "train_dice_list fr1 = train_dice_list fr @ [dice_list lv]"
       "consis_w fr1 = Some (ssl_applied_weight cfg (glob_it ag))"
       "iterations fr1 = iterations fr @ [lv]"
    by blast
  have p1: "pulled (trainIter ag1) = Suc (pulled (trainIter ag))"
    using next_or_restart_pulled [OF f(1)] f(3) by simp
  have p2: "pulled (trainIter_unlab ag1) = Suc (pulled (trainIter_unlab ag))"
    using next_or_restart_pulled [OF f(2)] f(4) by simp
  from Suc.IH [OF rest] obtain hs where
    h: "length hs = n"
       "iterations fr' = iterations fr1 @ hs"
       "train_loss fr' = train_loss fr1 + sum_list (map loss hs)"
       "train_loss_sup fr' = train_loss_sup fr1 + sum_list (map loss_sup hs)"
       "train_loss_unsup fr' = train_loss_unsup fr1 + sum_list (map loss_unsup hs)"
       "train_dice_list fr' = train_dice_list fr1 @ map dice_list hs"
       "glob_it ag' = glob_it ag1"
       "forward_passes ag' = forward_passes ag1 + n"
       "pulled (trainIter ag') = pulled (trainIter ag1) + n"
       "pulled (trainIter_unlab ag') = pulled (trainIter_unlab ag1) + n"
       "consis_w fr' = (if n = 0 then consis_w fr1
                        else Some (ssl_applied_weight cfg (glob_it ag1)))"
       "\<forall>lv \<in> set hs.
          loss lv = loss_sup lv + ssl_applied_weight cfg (glob_it ag1) * loss_unsup lv
        \<and> loss_unsup lv = EntropyLoss env \<lparr>prediction = outputs lv, softmax = True\<rparr>"
    by blast
  show ?case
    apply (rule exI [of _ "lv # hs"])
    using f h p1 p2 by simp
qed

section \<open>One step of the semi-supervised agent\<close>

text \<open>
  C1. Take any step of \<^verbatim>\<open>SSLSegAgent.training\<close> in which the two streams deliver a
  labelled batch \<open>dl\<close> and an unlabelled batch \<open>du\<close> and the network answers the
  concatenated images with one tensor \<open>out\<close> of as many samples as it was given. The
  step completes; the network input is the labelled images followed by the unlabelled
  ones; the network is called once (the count of forward passes grows by one) and that
  one output also feeds the unsupervised loss; \<open>p0\<close> is the first \<open>N0\<close> samples of the
  output and \<open>p1\<close> the remaining \<open>N1\<close>, in the output's order; the supervised loss is
  computed from \<open>p0\<close> and the labels of \<open>dl\<close>.
\<close>

theorem ssl_single_forward_and_split:
  assumes lab: "next_or_restart (train_loader env) (trainIter ag) = Inr (dl, c_lab)"
    and unlab: "next_or_restart (train_loader_unlab env) (trainIter_unlab ag) = Inr (du, c_unlab)"
    and out: "net env (params ag) (image dl @ unlab_image du) = Tensor out"
    and size: "length out = length (image dl) + length (unlab_image du)"
  shows "\<exists>ag' fr' lv.
      ssl_iteration env cfg (ag, fr) = Inr (ag', fr')
    \<and> iterations fr' = iterations fr @ [lv]
    \<and> inputs lv = image dl @ unlab_image du
    \<and> outputs lv = net env (params ag) (inputs lv)
    \<and> forward_passes ag' = forward_passes ag + 1
    \<and> p0 lv = Tensor (take (length (image dl)) out)
    \<and> p1 lv = Tensor (drop (length (image dl)) out)
    \<and> length (take (length (image dl)) out) = length (image dl)
    \<and> length (drop (length (image dl)) out) = length (unlab_image du)
    \<and> take (length (image dl)) out @ drop (length (image dl)) out = out
    \<and> loss_sup lv = ssl_get_loss_value env dl (image dl) (p0 lv) (label_prob dl)
    \<and> loss_unsup lv = EntropyLoss env \<lparr>prediction = outputs lv, softmax = True\<rparr>"
  using size
  by (simp add: ssl_iteration_def Let_def lab unlab out tensor_split_def first_if_tuple_def)

theorem ssl_single_forward_and_split_witness:
  "\<exists>ag' fr' lv.
      ssl_iteration ex_ssl_env ex_cfg (ex_ssl_agent, ssl_frame0) = Inr (ag', fr')
    \<and> iterations fr' = [lv]
    \<and> inputs lv = [1, 2, 5, 6, 7]
    \<and> outputs lv = Tensor [1, 2, 5, 6, 7]
    \<and> forward_passes ag' = 1
    \<and> p0 lv = Tensor [1, 2]
    \<and> p1 lv = Tensor [5, 6, 7]
    \<and> loss_sup lv = 2"
  using ssl_single_forward_and_split [where env = ex_ssl_env and ag = ex_ssl_agent
      and cfg = ex_cfg and fr = ssl_frame0
      and dl = "\<lparr>image = [1, 2], label_prob = [1, 0]\<rparr>"
      and c_lab = "\<lparr>remaining = [\<lparr>image = [3, 4], label_prob = [0, 1]\<rparr>], created = 1, pulled = 1\<rparr>"
      and du = "\<lparr>unlab_image = [5, 6, 7]\<rparr>"
      and c_unlab = "\<lparr>remaining = [], created = 1, pulled = 1\<rparr>"
      and out = "[1, 2, 5, 6, 7]"]
  by (auto simp add: ex_ssl_env_def ex_ssl_agent_def ex_cursor_def ex_cursor_unlab_def
      ex_loader_def ex_loader_unlab_def next_or_restart_def ssl_frame0_def tensor_size_def)

text \<open>
  C2. In such a step the unsupervised loss is \<^verbatim>\<open>EntropyLoss\<close> of the whole output of
  the forward pass, the labelled part \<open>p0\<close> followed by the unlabelled part \<open>p1\<close>, and
  that value is what the step adds to \<^verbatim>\<open>train_loss_unsup\<close>.
\<close>

theorem ssl_entropy_on_whole_output:
  assumes lab: "next_or_restart (train_loader env) (trainIter ag) = Inr (dl, c_lab)"
    and unlab: "next_or_restart (train_loader_unlab env) (trainIter_unlab ag) = Inr (du, c_unlab)"
    and out: "net env (params ag) (image dl @ unlab_image du) = Tensor out"
  shows "\<exists>ag' fr' lv.
      ssl_iteration env cfg (ag, fr) = Inr (ag', fr')
    \<and> iterations fr' = iterations fr @ [lv]
    \<and> outputs lv = net env (params ag) (image dl @ unlab_image du)
    \<and> p0 lv = Tensor (take (length (image dl)) out)
    \<and> p1 lv = Tensor (drop (length (image dl)) out)
    \<and> loss_unsup lv = EntropyLoss env
         \<lparr>prediction = Tensor (take (length (image dl)) out @ drop (length (image dl)) out),
          softmax = True\<rparr>
    \<and> train_loss_unsup fr' = train_loss_unsup fr + loss_unsup lv"
  by (simp add: ssl_iteration_def Let_def lab unlab out tensor_split_def first_if_tuple_def)

theorem ssl_entropy_on_whole_output_witness:
  "\<exists>ag' fr' lv.
      ssl_iteration ex_ssl_env ex_cfg (ex_ssl_agent, ssl_frame0) = Inr (ag', fr')
    \<and> iterations fr' = [lv]
    \<and> p0 lv = Tensor [1, 2] \<and> p1 lv = Tensor [5, 6, 7]
    \<and> loss_unsup lv = EntropyLoss ex_ssl_env \<lparr>prediction = Tensor [1, 2, 5, 6, 7], softmax = True\<rparr>
    \<and> loss_unsup lv = 1 / 2
    \<and> EntropyLoss ex_ssl_env \<lparr>prediction = Tensor [5, 6, 7], softmax = True\<rparr> = 3 / 10"
  using ssl_entropy_on_whole_output [where env = ex_ssl_env and ag = ex_ssl_agent
      and cfg = ex_cfg and fr = ssl_frame0
      and dl = "\<lparr>image = [1, 2], label_prob = [1, 0]\<rparr>"
      and c_lab = "\<lparr>remaining = [\<lparr>image = [3, 4], label_prob = [0, 1]\<rparr>], created = 1, pulled = 1\<rparr>"
      and du = "\<lparr>unlab_image = [5, 6, 7]\<rparr>"
      and c_unlab = "\<lparr>remaining = [], created = 1, pulled = 1\<rparr>"
      and out = "[1, 2, 5, 6, 7]"]
  by (auto simp add: ex_ssl_env_def ex_ssl_agent_def ex_cursor_def ex_cursor_unlab_def
      ex_loader_def ex_loader_unlab_def next_or_restart_def ssl_frame0_def tensor_size_def)


section \<open>The weight gates\<close>

text \<open>
  C3. In the semi-supervised agent the applied weight is 0 at every global step below
  \<^verbatim>\<open>iter_sup\<close> (default 0), whatever the ramp-up function returns, and is the ramp-up
  function's value for the base weight \<^verbatim>\<open>consis_w\<close> (default 0.1) at every other
  global step; it is the weight a training step stores in \<^verbatim>\<open>consis_w\<close> and uses in
  \<^verbatim>\<open>loss\<close>.
\<close>

theorem ssl_weight_gate:
  "(g < (case ssl_iter_sup (semi_supervised_learning cfg) of None \<Rightarrow> 0 | Some i \<Rightarrow> i)
      \<longrightarrow> ssl_applied_weight cfg g = 0)
 \<and> ((case ssl_iter_sup (semi_supervised_learning cfg) of None \<Rightarrow> 0 | Some i \<Rightarrow> i) \<le> g
      \<longrightarrow> ssl_applied_weight cfg g =
          get_consistency_weight_with_rampup
            (case ssl_consis_w (semi_supervised_learning cfg) of None \<Rightarrow> 1 / 10 | Some w \<Rightarrow> w)
            g
            (case ssl_ramp_up_length (semi_supervised_learning cfg) of
               None \<Rightarrow> Some (iter_max cfg) | Some l \<Rightarrow> l))
 \<and> (ssl_iteration env cfg (ag, fr) = Inr (ag', fr')
      \<longrightarrow> consis_w fr' = Some (ssl_applied_weight cfg (glob_it ag))
        \<and> (\<exists>lv. iterations fr' = iterations fr @ [lv]
              \<and> loss lv = loss_sup lv + ssl_applied_weight cfg (glob_it ag) * loss_unsup lv))"
proof -
  have gate: "g < (case ssl_iter_sup (semi_supervised_learning cfg) of None \<Rightarrow> 0 | Some i \<Rightarrow> i)
      \<longrightarrow> ssl_applied_weight cfg g = 0"
    by (simp add: ssl_applied_weight_def dict_get_def Let_def)
  have ramp: "(case ssl_iter_sup (semi_supervised_learning cfg) of None \<Rightarrow> 0 | Some i \<Rightarrow> i) \<le> g
      \<longrightarrow> ssl_applied_weight cfg g =
          get_consistency_weight_with_rampup
            (case ssl_consis_w (semi_supervised_learning cfg) of None \<Rightarrow> 1 / 10 | Some w \<Rightarrow> w)
            g
            (case ssl_ramp_up_length (semi_supervised_learning cfg) of
               None \<Rightarrow> Some (iter_max cfg) | Some l \<Rightarrow> l)"
    by (simp add: ssl_applied_weight_def dict_get_def Let_def)
  have step: "ssl_iteration env cfg (ag, fr) = Inr (ag', fr')
      \<longrightarrow> consis_w fr' = Some (ssl_applied_weight cfg (glob_it ag))
        \<and> (\<exists>lv. iterations fr' = iterations fr @ [lv]
              \<and> loss lv = loss_sup lv + ssl_applied_weight cfg (glob_it ag) * loss_unsup lv)"
    using ssl_iteration_Inr [of env cfg ag fr ag' fr'] by blast
  show ?thesis using gate ramp step by blast
qed

theorem ssl_weight_gate_witness:
  "ssl_applied_weight ex_cfg_gated 50 = 0
 \<and> ssl_applied_weight ex_cfg_gated 100 = get_consistency_weight_with_rampup (1 / 5) 100 (Some 1000)
 \<and> ssl_applied_weight ex_cfg 50 = get_consistency_weight_with_rampup (1 / 10) 50 None
 \<and> (\<exists>ag' fr'. ssl_iteration ex_ssl_env ex_cfg_gated (ex_ssl_agent, ssl_frame0) = Inr (ag', fr')
        \<and> consis_w fr' = Some 0)"
proof -
  have a: "ssl_applied_weight ex_cfg_gated 50 = 0"
    using ssl_weight_gate [where g = 50 and cfg = ex_cfg_gated, THEN conjunct1] by (simp add: ex_cfg_gated_def)
  have b: "ssl_applied_weight ex_cfg_gated 100
         = get_consistency_weight_with_rampup (1 / 5) 100 (Some 1000)"
    using ssl_weight_gate [where g = 100 and cfg = ex_cfg_gated, THEN conjunct2, THEN conjunct1] by (simp add: ex_cfg_gated_def)
  have c: "ssl_applied_weight ex_cfg 50 = get_consistency_weight_with_rampup (1 / 10) 50 None"
    using ssl_weight_gate [where g = 50 and cfg = ex_cfg, THEN conjunct2, THEN conjunct1] by (simp add: ex_cfg_def)
  obtain s' where s: "ssl_iteration ex_ssl_env ex_cfg_gated (ex_ssl_agent, ssl_frame0) = Inr s'"
    using ssl_iteration_total [of ex_ssl_env ex_cfg_gated "(ex_ssl_agent, ssl_frame0)"]
    by (auto simp: ex_ssl_env_def ex_loader_def ex_loader_unlab_def)
  have d: "consis_w (snd s') = Some (ssl_applied_weight ex_cfg_gated (glob_it ex_ssl_agent))"
    using ssl_weight_gate [where cfg = ex_cfg_gated and env = ex_ssl_env and ag = ex_ssl_agent
        and fr = ssl_frame0 and ag' = "fst s'" and fr' = "snd s'", THEN conjunct2, THEN conjunct2] s
    by simp
  have "consis_w (snd s') = Some 0"
    using d a by (simp add: ex_ssl_agent_def)
  then show ?thesis using a b c s by (cases s') auto
qed

text \<open>
  C4, as stated, fails where the configured base weight is 0. With
  \<^verbatim>\<open>regularize_w = 0\<close> and \<^verbatim>\<open>iter_sup = 100\<close> the applied weight is 0 at global step
  100 and is 0 again at global step 101, the first step past the threshold.
\<close>

theorem wsl_weight_zero_after_threshold:
  "dict_get (wsl_iter_sup (weakly_supervised_learning ex_cfg_zero_w)) 0 = 100
 \<and> wsl_applied_weight sigmoid_rampup_spec ex_cfg_zero_w 100 = 0
 \<and> wsl_applied_weight sigmoid_rampup_spec ex_cfg_zero_w (100 + 1) = 0"
  by (simp add: wsl_applied_weight_def dict_get_def ex_cfg_zero_w_def)

text \<open>
  C4, amended. In the weakly-supervised agent the threshold test is
  \<^verbatim>\<open>glob_it > iter_sup\<close> (default 0): at every global step up to and including
  \<^verbatim>\<open>iter_sup\<close> the applied weight is 0, and at every later step it is the base
  weight \<^verbatim>\<open>regularize_w\<close> (default 0.1), multiplied by the ramp factor while the step
  is below the ramp length. So the weight at \<^verbatim>\<open>iter_sup\<close> is 0, a weight other than
  0 needs a step strictly above \<^verbatim>\<open>iter_sup\<close>, and the weight at \<^verbatim>\<open>iter_sup + 1\<close>
  is not 0 when the base weight and the ramp factor at that step are not 0. It is the
  weight a training step stores in \<^verbatim>\<open>regular_w\<close> and uses in \<^verbatim>\<open>loss\<close>.
\<close>

theorem wsl_weight_gate:
  "wsl_applied_weight ramp cfg g =
     (if dict_get (wsl_iter_sup (weakly_supervised_learning cfg)) 0 < g then
        (case dict_get (wsl_ramp_up_length (weakly_supervised_learning cfg)) (Some (iter_max cfg)) of
           None \<Rightarrow> dict_get (wsl_regularize_w (weakly_supervised_learning cfg)) (1 / 10)
         | Some l \<Rightarrow>
             if g < l
             then dict_get (wsl_regularize_w (weakly_supervised_learning cfg)) (1 / 10) * ramp g l
             else dict_get (wsl_regularize_w (weakly_supervised_learning cfg)) (1 / 10))
      else 0)
 \<and> wsl_applied_weight ramp cfg (dict_get (wsl_iter_sup (weakly_supervised_learning cfg)) 0) = 0
 \<and> (wsl_applied_weight ramp cfg g \<noteq> 0
      \<longrightarrow> dict_get (wsl_iter_sup (weakly_supervised_learning cfg)) 0 < g)
 \<and> (dict_get (wsl_regularize_w (weakly_supervised_learning cfg)) (1 / 10) \<noteq> 0
      \<and> (\<forall>l. dict_get (wsl_ramp_up_length (weakly_supervised_learning cfg)) (Some (iter_max cfg))
                = Some l
              \<and> dict_get (wsl_iter_sup (weakly_supervised_learning cfg)) 0 + 1 < l
              \<longrightarrow> ramp (dict_get (wsl_iter_sup (weakly_supervised_learning cfg)) 0 + 1) l \<noteq> 0)
      \<longrightarrow> wsl_applied_weight ramp cfg
            (dict_get (wsl_iter_sup (weakly_supervised_learning cfg)) 0 + 1) \<noteq> 0)
 \<and> (wsl_iteration env cfg (ag, fr) = Inr (ag', fr')
      \<longrightarrow> regular_w fr' = Some (wsl_applied_weight (sigmoid_rampup env) cfg (glob_it ag))
        \<and> (\<exists>lv. wsl_iterations fr' = wsl_iterations fr @ [lv]
              \<and> step_regular_w lv = wsl_applied_weight (sigmoid_rampup env) cfg (glob_it ag)
              \<and> wsl_loss lv = wsl_loss_sup lv + step_regular_w lv * loss_reg lv))"
proof -
  have all: "wsl_applied_weight ramp cfg g =
     (if dict_get (wsl_iter_sup (weakly_supervised_learning cfg)) 0 < g then
        (case dict_get (wsl_ramp_up_length (weakly_supervised_learning cfg)) (Some (iter_max cfg)) of
           None \<Rightarrow> dict_get (wsl_regularize_w (weakly_supervised_learning cfg)) (1 / 10)
         | Some l \<Rightarrow>
             if g < l
             then dict_get (wsl_regularize_w (weakly_supervised_learning cfg)) (1 / 10) * ramp g l
             else dict_get (wsl_regularize_w (weakly_supervised_learning cfg)) (1 / 10))
      else 0)" for g
    by (simp add: wsl_applied_weight_def Let_def)
  have at: "wsl_applied_weight ramp cfg
      (dict_get (wsl_iter_sup (weakly_supervised_learning cfg)) 0) = 0"
    by (simp add: all)
  have need: "wsl_applied_weight ramp cfg g \<noteq> 0
      \<longrightarrow> dict_get (wsl_iter_sup (weakly_supervised_learning cfg)) 0 < g"
    by (simp add: all)
  have nz: "dict_get (wsl_regularize_w (weakly_supervised_learning cfg)) (1 / 10) \<noteq> 0
      \<and> (\<forall>l. dict_get (wsl_ramp_up_length (weakly_supervised_learning cfg)) (Some (iter_max cfg))
                = Some l
              \<and> dict_get (wsl_iter_sup (weakly_supervised_learning cfg)) 0 + 1 < l
              \<longrightarrow> ramp (dict_get (wsl_iter_sup (weakly_supervised_learning cfg)) 0 + 1) l \<noteq> 0)
      \<longrightarrow> wsl_applied_weight ramp cfg
            (dict_get (wsl_iter_sup (weakly_supervised_learning cfg)) 0 + 1) \<noteq> 0"
    by (auto simp: all split: option.splits)
  have step: "wsl_iteration env cfg (ag, fr) = Inr (ag', fr')
      \<longrightarrow> regular_w fr' = Some (wsl_applied_weight (sigmoid_rampup env) cfg (glob_it ag))
        \<and> (\<exists>lv. wsl_iterations fr' = wsl_iterations fr @ [lv]
              \<and> step_regular_w lv = wsl_applied_weight (sigmoid_rampup env) cfg (glob_it ag)
              \<and> wsl_loss lv = wsl_loss_sup lv + step_regular_w lv * loss_reg lv)"
    by (auto simp: wsl_iteration_def Let_def split: sum.splits)
  show ?thesis by (intro conjI all at need nz step)
qed

theorem wsl_weight_gate_witness:
  "wsl_applied_weight sigmoid_rampup_spec ex_cfg_gated 99 = 0
 \<and> wsl_applied_weight sigmoid_rampup_spec ex_cfg_gated 100 = 0
 \<and> wsl_applied_weight sigmoid_rampup_spec ex_cfg_gated 101
     = (1 / 10) * sigmoid_rampup_spec 101 1000
 \<and> wsl_applied_weight sigmoid_rampup_spec ex_cfg_gated 101 \<noteq> 0
 \<and> wsl_applied_weight sigmoid_rampup_spec ex_cfg_gated 1000 = 1 / 10"
proof -
  note t = wsl_weight_gate [where ramp = sigmoid_rampup_spec and cfg = ex_cfg_gated]
  have a: "wsl_applied_weight sigmoid_rampup_spec ex_cfg_gated 99 = 0"
    using t [where g = 99, THEN conjunct1]
    by (simp add: ex_cfg_gated_def dict_get_def)
  have b: "wsl_applied_weight sigmoid_rampup_spec ex_cfg_gated 100 = 0"
    using t [THEN conjunct2, THEN conjunct1]
    by (simp add: ex_cfg_gated_def dict_get_def)
  have c: "wsl_applied_weight sigmoid_rampup_spec ex_cfg_gated 101
     = (1 / 10) * sigmoid_rampup_spec 101 1000"
    using t [where g = 101, THEN conjunct1]
    by (simp add: ex_cfg_gated_def dict_get_def)
  have d: "wsl_applied_weight sigmoid_rampup_spec ex_cfg_gated 101 \<noteq> 0"
    using t [THEN conjunct2, THEN conjunct2, THEN conjunct2, THEN conjunct1]
    by (simp add: ex_cfg_gated_def dict_get_def sigmoid_rampup_spec_def)
  have e: "wsl_applied_weight sigmoid_rampup_spec ex_cfg_gated 1000 = 1 / 10"
    using t [where g = 1000, THEN conjunct1]
    by (simp add: ex_cfg_gated_def dict_get_def)
  show ?thesis by (intro conjI a b c d e)
qed

section \<open>Restarting the data streams\<close>

lemma ssl_train_scalers_error:
  "ssl_train_scalers cfg fr \<noteq> Inl StopIteration"
  by (auto simp: ssl_train_scalers_def Let_def mean_axis0_def
      split: option.splits sum.splits list.splits if_splits)

lemma passes_long_enough:
  assumes "\<forall>k. loader k \<noteq> []"
  shows "n \<le> length (concat (map loader [k ..< k + n]))"
proof (induction n)
  case 0
  show ?case by simp
next
  case (Suc n)
  have "loader (k + n) \<noteq> []" using assms by simp
  then have "Suc 0 \<le> length (loader (k + n))" by (cases "loader (k + n)") simp_all
  then show ?case using Suc by simp
qed

lemma stream_prefix_step:
  assumes ne: "\<forall>k. loader k \<noteq> []"
    and nx: "next_or_restart loader c = Inr got"
  shows "stream_prefix loader c (Suc n) = fst got # stream_prefix loader (snd got) n"
proof (cases "remaining c")
  case (Cons b rest)
  then have got: "got = (b, c\<lparr>remaining := rest, pulled := Suc (pulled c)\<rparr>)"
    using nx by (simp add: next_or_restart_def)
  let ?X = "concat (map loader [created c ..< created c + n])"
  have long: "n \<le> length (rest @ ?X)"
    using passes_long_enough [OF ne, of n "created c"] by simp
  have "take n ((rest @ ?X) @ loader (created c + n)) = take n (rest @ ?X)"
    using long by (simp only: take_append) simp
  then show ?thesis
    by (simp add: stream_prefix_def Cons got)
next
  case Nil
  obtain b rest where l: "loader (created c) = b # rest"
    using ne by (meson list.exhaust)
  have got: "got = (b, \<lparr>remaining = rest, created = Suc (created c), pulled = Suc (pulled c)\<rparr>)"
    using nx Nil l by (simp add: next_or_restart_def)
  have "[created c ..< created c + Suc n] = created c # [Suc (created c) ..< Suc (created c) + n]"
    by (simp add: upt_conv_Cons)
  then show ?thesis
    by (simp add: stream_prefix_def Nil got l del: upt_Suc)
qed

lemma ssl_loop_batches:
  assumes lab: "\<forall>k. train_loader env k \<noteq> []"
    and unlab: "\<forall>k. train_loader_unlab env k \<noteq> []"
    and run: "for_range n (ssl_iteration env cfg) (ag, fr) = Inr (ag', fr')"
  shows "\<exists>hs. iterations fr' = iterations fr @ hs
    \<and> map data_lab hs = stream_prefix (train_loader env) (trainIter ag) n
    \<and> map data_unlab hs = stream_prefix (train_loader_unlab env) (trainIter_unlab ag) n"
  using run
proof (induction n arbitrary: ag fr)
  case 0
  then show ?case by (simp add: stream_prefix_def)
next
  case (Suc n)
  from Suc.prems obtain ag1 fr1 where
    step: "ssl_iteration env cfg (ag, fr) = Inr (ag1, fr1)" and
    rest: "for_range n (ssl_iteration env cfg) (ag1, fr1) = Inr (ag', fr')"
    by (auto split: sum.splits)
  from ssl_iteration_Inr [OF step] obtain lv got_lab got_unlab where
    f: "next_or_restart (train_loader env) (trainIter ag) = Inr got_lab"
       "next_or_restart (train_loader_unlab env) (trainIter_unlab ag) = Inr got_unlab"
       "data_lab lv = fst got_lab" "data_unlab lv = fst got_unlab"
       "trainIter ag1 = snd got_lab" "trainIter_unlab ag1 = snd got_unlab"
       "iterations fr1 = iterations fr @ [lv]"
    by blast
  from Suc.IH [OF rest] obtain hs where
    h: "iterations fr' = iterations fr1 @ hs"
       "map data_lab hs = stream_prefix (train_loader env) (trainIter ag1) n"
       "map data_unlab hs = stream_prefix (train_loader_unlab env) (trainIter_unlab ag1) n"
    by blast
  show ?case
    apply (rule exI [of _ "lv # hs"])
    using f h stream_prefix_step [OF lab f(1), of n] stream_prefix_step [OF unlab f(2), of n]
    by simp
qed


lemma next_or_restart_pull:
  assumes "\<forall>k. loader k \<noteq> []"
  shows "next_or_restart loader c =
     Inr (case remaining c of
            b # rest \<Rightarrow> (b, c\<lparr>remaining := rest, pulled := Suc (pulled c)\<rparr>)
          | [] \<Rightarrow> (hd (loader (created c)),
                   \<lparr>remaining = tl (loader (created c)), created = Suc (created c),
                    pulled = Suc (pulled c)\<rparr>))"
proof (cases "remaining c")
  case (Cons b rest)
  then show ?thesis by (simp add: next_or_restart_def)
next
  case Nil
  obtain b rest where "loader (created c) = b # rest"
    using assms by (meson list.exhaust)
  then show ?thesis using Nil by (simp add: next_or_restart_def)
qed

text \<open>
  C6. Let each of the two loaders yield at least one batch per pass (a PyTorch loader
  over a non-empty dataset does). Then neither the loop of \<^verbatim>\<open>SSLSegAgent.training\<close>
  nor the method ends in \<^verbatim>\<open>StopIteration\<close>, whatever \<^verbatim>\<open>iter_valid\<close> and whatever
  is left in the two iterators. A pull from either stream returns the next batch of the
  live iterator or, when that is exhausted, creates a fresh iterator over the same
  loader and returns its first batch, leaving the rest of that pass in the new live
  iterator. Every completed iteration makes exactly one such pull from each stream. With
  a network that returns a tensor the loop completes all \<^verbatim>\<open>iter_valid\<close> iterations,
  and the batches they consume are, stream by stream and in order, the first
  \<^verbatim>\<open>iter_valid\<close> batches of what was left in the live iterator followed by the passes
  of the iterators created after it.
\<close>

theorem ssl_streams_restart:
  assumes lab: "\<forall>k. train_loader env k \<noteq> []"
    and unlab: "\<forall>k. train_loader_unlab env k \<noteq> []"
  shows "ssl_training_loop env cfg ag \<noteq> Inl StopIteration
       \<and> ssl_training env cfg ag \<noteq> Inl StopIteration
       \<and> next_or_restart (train_loader env) c =
            Inr (case remaining c of
                   b # rest \<Rightarrow> (b, c\<lparr>remaining := rest, pulled := Suc (pulled c)\<rparr>)
                 | [] \<Rightarrow> (hd (train_loader env (created c)),
                          \<lparr>remaining = tl (train_loader env (created c)),
                           created = Suc (created c), pulled = Suc (pulled c)\<rparr>))
       \<and> next_or_restart (train_loader_unlab env) cu =
            Inr (case remaining cu of
                   b # rest \<Rightarrow> (b, cu\<lparr>remaining := rest, pulled := Suc (pulled cu)\<rparr>)
                 | [] \<Rightarrow> (hd (train_loader_unlab env (created cu)),
                          \<lparr>remaining = tl (train_loader_unlab env (created cu)),
                           created = Suc (created cu), pulled = Suc (pulled cu)\<rparr>))
       \<and> (ssl_iteration env cfg (ag, fr) = Inr (ag1, fr1) \<longrightarrow>
            (\<exists>lv. iterations fr1 = iterations fr @ [lv]
               \<and> next_or_restart (train_loader env) (trainIter ag)
                   = Inr (data_lab lv, trainIter ag1)
               \<and> next_or_restart (train_loader_unlab env) (trainIter_unlab ag)
                   = Inr (data_unlab lv, trainIter_unlab ag1))
          \<and> pulled (trainIter ag1) = pulled (trainIter ag) + 1
          \<and> pulled (trainIter_unlab ag1) = pulled (trainIter_unlab ag) + 1)
       \<and> ((\<forall>p xs. \<exists>t. net env p xs = Tensor t) \<longrightarrow>
            (\<exists>ag' fr'. ssl_training_loop env cfg ag = Inr (ag', fr')
               \<and> length (iterations fr') = nat (iter_valid cfg)
               \<and> map data_lab (iterations fr')
                   = stream_prefix (train_loader env) (trainIter ag) (nat (iter_valid cfg))
               \<and> map data_unlab (iterations fr')
                   = stream_prefix (train_loader_unlab env) (trainIter_unlab ag)
                       (nat (iter_valid cfg))
               \<and> pulled (trainIter ag') = pulled (trainIter ag) + nat (iter_valid cfg)
               \<and> pulled (trainIter_unlab ag')
                   = pulled (trainIter_unlab ag) + nat (iter_valid cfg)))"
proof -
  have loop: "ssl_training_loop env cfg ag \<noteq> Inl StopIteration"
    unfolding ssl_training_loop_def
    by (rule for_range_error) (rule ssl_iteration_no_StopIteration [OF assms])
  have whole: "ssl_training env cfg ag \<noteq> Inl StopIteration"
    using loop ssl_train_scalers_error
    by (auto simp: ssl_training_def split: sum.splits)
  note pull_lab = next_or_restart_pull [OF lab, of c]
  note pull_unlab = next_or_restart_pull [OF unlab, of cu]
  have one: "ssl_iteration env cfg (ag, fr) = Inr (ag1, fr1) \<longrightarrow>
            (\<exists>lv. iterations fr1 = iterations fr @ [lv]
               \<and> next_or_restart (train_loader env) (trainIter ag)
                   = Inr (data_lab lv, trainIter ag1)
               \<and> next_or_restart (train_loader_unlab env) (trainIter_unlab ag)
                   = Inr (data_unlab lv, trainIter_unlab ag1))
          \<and> pulled (trainIter ag1) = pulled (trainIter ag) + 1
          \<and> pulled (trainIter_unlab ag1) = pulled (trainIter_unlab ag) + 1"
  proof
    assume step: "ssl_iteration env cfg (ag, fr) = Inr (ag1, fr1)"
    from ssl_iteration_Inr [OF step] obtain lv got_lab got_unlab where
      f: "next_or_restart (train_loader env) (trainIter ag) = Inr got_lab"
         "next_or_restart (train_loader_unlab env) (trainIter_unlab ag) = Inr got_unlab"
         "data_lab lv = fst got_lab" "data_unlab lv = fst got_unlab"
         "trainIter ag1 = snd got_lab" "trainIter_unlab ag1 = snd got_unlab"
         "iterations fr1 = iterations fr @ [lv]"
      by blast
    have "\<exists>lv. iterations fr1 = iterations fr @ [lv]
               \<and> next_or_restart (train_loader env) (trainIter ag)
                   = Inr (data_lab lv, trainIter ag1)
               \<and> next_or_restart (train_loader_unlab env) (trainIter_unlab ag)
                   = Inr (data_unlab lv, trainIter_unlab ag1)"
      by (rule exI [of _ lv]) (simp add: f)
    moreover have "pulled (trainIter ag1) = pulled (trainIter ag) + 1"
      using next_or_restart_pulled [OF f(1)] f(5) by simp
    moreover have "pulled (trainIter_unlab ag1) = pulled (trainIter_unlab ag) + 1"
      using next_or_restart_pulled [OF f(2)] f(6) by simp
    ultimately show "(\<exists>lv. iterations fr1 = iterations fr @ [lv]
               \<and> next_or_restart (train_loader env) (trainIter ag)
                   = Inr (data_lab lv, trainIter ag1)
               \<and> next_or_restart (train_loader_unlab env) (trainIter_unlab ag)
                   = Inr (data_unlab lv, trainIter_unlab ag1))
          \<and> pulled (trainIter ag1) = pulled (trainIter ag) + 1
          \<and> pulled (trainIter_unlab ag1) = pulled (trainIter_unlab ag) + 1"
      by (intro conjI)
  qed
  have total: "(\<forall>p xs. \<exists>t. net env p xs = Tensor t) \<longrightarrow>
            (\<exists>ag' fr'. ssl_training_loop env cfg ag = Inr (ag', fr')
               \<and> length (iterations fr') = nat (iter_valid cfg)
               \<and> map data_lab (iterations fr')
                   = stream_prefix (train_loader env) (trainIter ag) (nat (iter_valid cfg))
               \<and> map data_unlab (iterations fr')
                   = stream_prefix (train_loader_unlab env) (trainIter_unlab ag)
                       (nat (iter_valid cfg))
               \<and> pulled (trainIter ag') = pulled (trainIter ag) + nat (iter_valid cfg)
               \<and> pulled (trainIter_unlab ag')
                   = pulled (trainIter_unlab ag) + nat (iter_valid cfg))"
  proof
    assume net: "\<forall>p xs. \<exists>t. net env p xs = Tensor t"
    have "\<exists>s'. for_range (nat (iter_valid cfg)) (ssl_iteration env cfg) (ag, ssl_frame0) = Inr s'"
      by (rule for_range_total) (rule ssl_iteration_total [OF assms net])
    then obtain ag' fr' where
      r: "for_range (nat (iter_valid cfg)) (ssl_iteration env cfg) (ag, ssl_frame0) = Inr (ag', fr')"
      by (metis surj_pair)
    from ssl_loop_Inr [OF r] obtain hs where
      h: "length hs = nat (iter_valid cfg)" "iterations fr' = iterations ssl_frame0 @ hs"
      "pulled (trainIter ag') = pulled (trainIter ag) + nat (iter_valid cfg)"
      "pulled (trainIter_unlab ag') = pulled (trainIter_unlab ag) + nat (iter_valid cfg)"
      by blast
    from ssl_loop_batches [OF lab unlab r] obtain hs' where
      b: "iterations fr' = iterations ssl_frame0 @ hs'"
      "map data_lab hs' = stream_prefix (train_loader env) (trainIter ag) (nat (iter_valid cfg))"
      "map data_unlab hs'
         = stream_prefix (train_loader_unlab env) (trainIter_unlab ag) (nat (iter_valid cfg))"
      by blast
    have i: "iterations fr' = hs" "iterations fr' = hs'"
      using h(2) b(1) by (simp_all add: ssl_frame0_def)
    show "\<exists>ag' fr'. ssl_training_loop env cfg ag = Inr (ag', fr')
               \<and> length (iterations fr') = nat (iter_valid cfg)
               \<and> map data_lab (iterations fr')
                   = stream_prefix (train_loader env) (trainIter ag) (nat (iter_valid cfg))
               \<and> map data_unlab (iterations fr')
                   = stream_prefix (train_loader_unlab env) (trainIter_unlab ag)
                       (nat (iter_valid cfg))
               \<and> pulled (trainIter ag') = pulled (trainIter ag) + nat (iter_valid cfg)
               \<and> pulled (trainIter_unlab ag')
                   = pulled (trainIter_unlab ag) + nat (iter_valid cfg)"
      apply (rule exI [of _ ag'], rule exI [of _ fr'])
      using r h b i by (simp add: ssl_training_loop_def)
  qed
  show ?thesis by (intro conjI loop whole pull_lab pull_unlab one total)
qed

lemmas ex_sel =
  ex_ssl_env_def ex_ssl_agent_def ex_cursor_def ex_cursor_unlab_def ex_loader_def
  ex_loader_unlab_def tensor_size_def

theorem ssl_streams_restart_witness:
  "ssl_training_loop ex_ssl_env (ex_cfg\<lparr>iter_valid := 5\<rparr>) ex_ssl_agent \<noteq> Inl StopIteration
 \<and> ssl_training ex_ssl_env (ex_cfg\<lparr>iter_valid := 5\<rparr>) ex_ssl_agent \<noteq> Inl StopIteration
 \<and> (\<exists>ag' fr'. ssl_training_loop ex_ssl_env (ex_cfg\<lparr>iter_valid := 5\<rparr>) ex_ssl_agent
                 = Inr (ag', fr')
        \<and> length (iterations fr') = 5
        \<and> map data_lab (iterations fr')
            = [\<lparr>image = [1, 2], label_prob = [1, 0]\<rparr>, \<lparr>image = [3, 4], label_prob = [0, 1]\<rparr>,
               \<lparr>image = [1, 2], label_prob = [1, 0]\<rparr>, \<lparr>image = [3, 4], label_prob = [0, 1]\<rparr>,
               \<lparr>image = [1, 2], label_prob = [1, 0]\<rparr>]
        \<and> map data_unlab (iterations fr')
            = [\<lparr>unlab_image = [5, 6, 7]\<rparr>, \<lparr>unlab_image = [5, 6, 7]\<rparr>,
               \<lparr>unlab_image = [5, 6, 7]\<rparr>, \<lparr>unlab_image = [5, 6, 7]\<rparr>,
               \<lparr>unlab_image = [5, 6, 7]\<rparr>]
        \<and> pulled (trainIter ag') = 5 \<and> created (trainIter ag') = 3
        \<and> pulled (trainIter_unlab ag') = 5 \<and> created (trainIter_unlab ag') = 5)"
proof -
  have net: "\<forall>p xs. \<exists>t. net ex_ssl_env p xs = Tensor t"
    by (simp add: ex_ssl_env_def)
  have ne: "\<forall>k. train_loader ex_ssl_env k \<noteq> []" "\<forall>k. train_loader_unlab ex_ssl_env k \<noteq> []"
    by (simp_all add: ex_ssl_env_def ex_loader_def ex_loader_unlab_def)
  note t = ssl_streams_restart [OF ne, where cfg = "ex_cfg\<lparr>iter_valid := 5\<rparr>" and ag = ex_ssl_agent]
  have a: "ssl_training_loop ex_ssl_env (ex_cfg\<lparr>iter_valid := 5\<rparr>) ex_ssl_agent \<noteq> Inl StopIteration"
    by (rule t [THEN conjunct1])
  have b: "ssl_training ex_ssl_env (ex_cfg\<lparr>iter_valid := 5\<rparr>) ex_ssl_agent \<noteq> Inl StopIteration"
    by (rule t [THEN conjunct2, THEN conjunct1])
  from t [THEN conjunct2, THEN conjunct2, THEN conjunct2, THEN conjunct2, THEN conjunct2] net
  obtain ag' fr' where
    r: "ssl_training_loop ex_ssl_env (ex_cfg\<lparr>iter_valid := 5\<rparr>) ex_ssl_agent = Inr (ag', fr')"
       "length (iterations fr') = nat (iter_valid (ex_cfg\<lparr>iter_valid := 5\<rparr>))"
       "map data_lab (iterations fr')
          = stream_prefix (train_loader ex_ssl_env) (trainIter ex_ssl_agent)
              (nat (iter_valid (ex_cfg\<lparr>iter_valid := 5\<rparr>)))"
       "map data_unlab (iterations fr')
          = stream_prefix (train_loader_unlab ex_ssl_env) (trainIter_unlab ex_ssl_agent)
              (nat (iter_valid (ex_cfg\<lparr>iter_valid := 5\<rparr>)))"
       "pulled (trainIter ag') = pulled (trainIter ex_ssl_agent)
          + nat (iter_valid (ex_cfg\<lparr>iter_valid := 5\<rparr>))"
       "pulled (trainIter_unlab ag') = pulled (trainIter_unlab ex_ssl_agent)
          + nat (iter_valid (ex_cfg\<lparr>iter_valid := 5\<rparr>))"
    by blast
  have run: "\<exists>ag' fr'. ssl_training_loop ex_ssl_env (ex_cfg\<lparr>iter_valid := 5\<rparr>) ex_ssl_agent
                 = Inr (ag', fr')
        \<and> created (trainIter ag') = 3 \<and> created (trainIter_unlab ag') = 5"
    by (simp add: ssl_training_loop_def ssl_iteration_def ex_sel ex_cfg_def next_or_restart_def
        tensor_split_def first_if_tuple_def ssl_frame0_def Let_def eval_nat_numeral)
  then have cr: "created (trainIter ag') = 3 \<and> created (trainIter_unlab ag') = 5"
    using r(1) by auto
  have c: "\<exists>ag' fr'. ssl_training_loop ex_ssl_env (ex_cfg\<lparr>iter_valid := 5\<rparr>) ex_ssl_agent
                 = Inr (ag', fr')
        \<and> length (iterations fr') = 5
        \<and> map data_lab (iterations fr')
            = [\<lparr>image = [1, 2], label_prob = [1, 0]\<rparr>, \<lparr>image = [3, 4], label_prob = [0, 1]\<rparr>,
               \<lparr>image = [1, 2], label_prob = [1, 0]\<rparr>, \<lparr>image = [3, 4], label_prob = [0, 1]\<rparr>,
               \<lparr>image = [1, 2], label_prob = [1, 0]\<rparr>]
        \<and> map data_unlab (iterations fr')
            = [\<lparr>unlab_image = [5, 6, 7]\<rparr>, \<lparr>unlab_image = [5, 6, 7]\<rparr>,
               \<lparr>unlab_image = [5, 6, 7]\<rparr>, \<lparr>unlab_image = [5, 6, 7]\<rparr>,
               \<lparr>unlab_image = [5, 6, 7]\<rparr>]
        \<and> pulled (trainIter ag') = 5 \<and> created (trainIter ag') = 3
        \<and> pulled (trainIter_unlab ag') = 5 \<and> created (trainIter_unlab ag') = 5"
    apply (rule exI [of _ ag'], rule exI [of _ fr'])
    using r cr
    by (simp add: stream_prefix_def ex_sel ex_cfg_def eval_nat_numeral upt_conv_Cons)
  show ?thesis by (intro conjI a b c)
qed

section \<open>The epoch record\<close>

lemma for_range_invariant:
  assumes "\<And>s s'. I s \<Longrightarrow> body s = Inr s' \<Longrightarrow> I s'"
    and "I s" and "for_range n body s = Inr s'"
  shows "I s'"
  using assms(2,3)
proof (induction n arbitrary: s)
  case 0
  then show ?case by simp
next
  case (Suc n)
  from Suc.prems(2) obtain s1 where
    "body s = Inr s1" "for_range n body s1 = Inr s'"
    by (auto split: sum.splits)
  then show ?case using Suc.IH [of s1] assms(1) [of s s1] Suc.prems(1) by blast
qed

lemma mean_axis0_rows:
  assumes "rows \<noteq> []" and "\<forall>q \<in> set rows. length q = k"
  shows "mean_axis0 rows =
     Inr (map (\<lambda>c. sum_list (map (\<lambda>q. q ! c) rows) / real (length rows)) [0 ..< k])"
  using assms by (cases rows) (auto simp: mean_axis0_def list_all_iff)

lemma ssl_iteration_dice_length:
  assumes "\<forall>k p y. length (classwise_dice env k p y) = k"
    and "\<forall>q \<in> set (train_dice_list (snd s)). length q = class_num cfg"
    and "ssl_iteration env cfg s = Inr s'"
  shows "\<forall>q \<in> set (train_dice_list (snd s')). length q = class_num cfg"
  using assms
  by (auto simp: ssl_iteration_def Let_def split: sum.splits)

lemma ssl_loop_dice_length:
  assumes "\<forall>k p y. length (classwise_dice env k p y) = k"
    and "ssl_training_loop env cfg ag = Inr (ag', fr)"
  shows "\<forall>q \<in> set (train_dice_list fr). length q = class_num cfg"
proof -
  have "\<forall>q \<in> set (train_dice_list (snd (ag', fr))). length q = class_num cfg"
  proof (rule for_range_invariant
      [where I = "\<lambda>s. \<forall>q \<in> set (train_dice_list (snd s)). length q = class_num cfg"
        and body = "ssl_iteration env cfg"])
    show "\<And>s s'. \<forall>q \<in> set (train_dice_list (snd s)). length q = class_num cfg \<Longrightarrow>
        ssl_iteration env cfg s = Inr s' \<Longrightarrow>
        \<forall>q \<in> set (train_dice_list (snd s')). length q = class_num cfg"
      using ssl_iteration_dice_length [OF assms(1)] by blast
    show "\<forall>q \<in> set (train_dice_list (snd (ag, ssl_frame0))). length q = class_num cfg"
      by (simp add: ssl_frame0_def)
    show "for_range (nat (iter_valid cfg)) (ssl_iteration env cfg) (ag, ssl_frame0) = Inr (ag', fr)"
      using assms(2) by (simp add: ssl_training_loop_def)
  qed
  then show ?thesis by simp
qed

lemma ssl_loop_sums:
  assumes "ssl_training_loop env cfg ag = Inr (ag', fr)"
  shows "length (iterations fr) = nat (iter_valid cfg)
    \<and> train_loss fr = sum_list (map loss (iterations fr))
    \<and> train_loss_sup fr = sum_list (map loss_sup (iterations fr))
    \<and> train_loss_unsup fr = sum_list (map loss_unsup (iterations fr))
    \<and> train_dice_list fr = map dice_list (iterations fr)
    \<and> glob_it ag' = glob_it ag
    \<and> consis_w fr = (if nat (iter_valid cfg) = 0 then None
                      else Some (ssl_applied_weight cfg (glob_it ag)))
    \<and> (\<forall>lv \<in> set (iterations fr).
          loss lv = loss_sup lv + ssl_applied_weight cfg (glob_it ag) * loss_unsup lv
        \<and> loss_unsup lv = EntropyLoss env \<lparr>prediction = outputs lv, softmax = True\<rparr>)"
proof -
  have r: "for_range (nat (iter_valid cfg)) (ssl_iteration env cfg) (ag, ssl_frame0) = Inr (ag', fr)"
    using assms by (simp add: ssl_training_loop_def)
  from ssl_loop_Inr [OF r] show ?thesis
    by (auto simp: ssl_frame0_def)
qed

lemma ssl_training_char:
  assumes pos: "0 < iter_valid cfg"
    and dice: "\<forall>k p y. length (classwise_dice env k p y) = k"
    and loop: "ssl_training_loop env cfg ag = Inr (ag', fr)"
  shows "ssl_training env cfg ag =
     Inr (ag',
       [''loss'' \<mapsto> Scalar (train_loss fr / real_of_int (iter_valid cfg)),
        ''loss_sup'' \<mapsto> Scalar (train_loss_sup fr / real_of_int (iter_valid cfg)),
        ''loss_unsup'' \<mapsto> Scalar (train_loss_unsup fr / real_of_int (iter_valid cfg)),
        ''consis_w'' \<mapsto> Scalar (ssl_applied_weight cfg (glob_it ag)),
        ''avg_dice'' \<mapsto> Scalar (np_mean (classwise_mean (train_dice_list fr) (iter_valid cfg) (class_num cfg))),
        ''class_dice'' \<mapsto> Vector (classwise_mean (train_dice_list fr) (iter_valid cfg) (class_num cfg))])"
proof -
  note s = ssl_loop_sums [OF loop]
  have n: "nat (iter_valid cfg) \<noteq> 0" using pos by simp
  have w: "consis_w fr = Some (ssl_applied_weight cfg (glob_it ag))"
    using s n by simp
  have rows: "train_dice_list fr \<noteq> []"
    using s n by (metis length_0_conv length_map)
  have len: "real (length (train_dice_list fr)) = real_of_int (iter_valid cfg)"
    using s pos by simp
  have m: "mean_axis0 (train_dice_list fr)
      = Inr (classwise_mean (train_dice_list fr) (iter_valid cfg) (class_num cfg))"
    using mean_axis0_rows [OF rows ssl_loop_dice_length [OF dice loop]] len
    by (simp add: classwise_mean_def)
  show ?thesis
    using pos by (simp add: ssl_training_def loop ssl_train_scalers_def Let_def w m)
qed


lemma wsl_iteration_Inr:
  assumes "wsl_iteration env cfg (ag, fr) = Inr (ag', fr')"
  shows "\<exists>lv got.
      next_or_restart (train_loader env) (trainIter ag) = Inr got
    \<and> wsl_data lv = fst got \<and> trainIter ag' = snd got
    \<and> wsl_inputs lv = image (wsl_data lv)
    \<and> wsl_outputs lv = net env (params ag) (wsl_inputs lv)
    \<and> wsl_loss_sup lv = wsl_get_loss_value env (wsl_data lv) (wsl_outputs lv)
                           (label_prob (wsl_data lv))
    \<and> loss_reg lv = MumfordShahLoss env (weakly_supervised_learning cfg)
                       \<lparr>reg_prediction = wsl_outputs lv, reg_image = wsl_inputs lv\<rparr>
    \<and> wsl_loss lv = wsl_loss_sup lv
         + wsl_applied_weight (sigmoid_rampup env) cfg (glob_it ag) * loss_reg lv
    \<and> params ag' = backward_and_step env (params ag) (wsl_inputs lv) (wsl_data lv)
                      (wsl_applied_weight (sigmoid_rampup env) cfg (glob_it ag))
    \<and> glob_it ag' = glob_it ag
    \<and> forward_passes ag' = Suc (forward_passes ag)
    \<and> wsl_train_loss fr' = wsl_train_loss fr + wsl_loss lv
    \<and> wsl_train_loss_sup fr' = wsl_train_loss_sup fr + wsl_loss_sup lv
    \<and> train_loss_reg fr' = train_loss_reg fr + loss_reg lv
    \<and> wsl_train_dice_list fr' = wsl_train_dice_list fr @ [wsl_dice_list lv]
    \<and> regular_w fr' = Some (wsl_applied_weight (sigmoid_rampup env) cfg (glob_it ag))
    \<and> wsl_iterations fr' = wsl_iterations fr @ [lv]"
  using assms
  by (auto simp: wsl_iteration_def Let_def split: sum.splits)

lemma wsl_loop_Inr:
  assumes "for_range n (wsl_iteration env cfg) (ag, fr) = Inr (ag', fr')"
  shows "\<exists>hs. length hs = n
    \<and> wsl_iterations fr' = wsl_iterations fr @ hs
    \<and> wsl_train_loss fr' = wsl_train_loss fr + sum_list (map wsl_loss hs)
    \<and> wsl_train_loss_sup fr' = wsl_train_loss_sup fr + sum_list (map wsl_loss_sup hs)
    \<and> train_loss_reg fr' = train_loss_reg fr + sum_list (map loss_reg hs)
    \<and> wsl_train_dice_list fr' = wsl_train_dice_list fr @ map wsl_dice_list hs
    \<and> glob_it ag' = glob_it ag
    \<and> regular_w fr' = (if n = 0 then regular_w fr
         else Some (wsl_applied_weight (sigmoid_rampup env) cfg (glob_it ag)))
    \<and> (\<forall>lv \<in> set hs.
          wsl_loss lv = wsl_loss_sup lv
            + wsl_applied_weight (sigmoid_rampup env) cfg (glob_it ag) * loss_reg lv
        \<and> loss_reg lv = MumfordShahLoss env (weakly_supervised_learning cfg)
                       \<lparr>reg_prediction = wsl_outputs lv, reg_image = wsl_inputs lv\<rparr>)"
  using assms
proof (induction n arbitrary: ag fr)
  case 0
  then show ?case by simp
next
  case (Suc n)
  from Suc.prems obtain ag1 fr1 where
    step: "wsl_iteration env cfg (ag, fr) = Inr (ag1, fr1)" and
    rest: "for_range n (wsl_iteration env cfg) (ag1, fr1) = Inr (ag', fr')"
    by (auto split: sum.splits)
  from wsl_iteration_Inr [OF step] obtain lv where
    f: "loss_reg lv = MumfordShahLoss env (weakly_supervised_learning cfg)
                       \<lparr>reg_prediction = wsl_outputs lv, reg_image = wsl_inputs lv\<rparr>"
       "wsl_loss lv = wsl_loss_sup lv
         + wsl_applied_weight (sigmoid_rampup env) cfg (glob_it ag) * loss_reg lv"
       "glob_it ag1 = glob_it ag"
       "wsl_train_loss fr1 = wsl_train_loss fr + wsl_loss lv"
       "wsl_train_loss_sup fr1 = wsl_train_loss_sup fr + wsl_loss_sup lv"
       "train_loss_reg fr1 = train_loss_reg fr + loss_reg lv"
       "wsl_train_dice_list fr1 = wsl_train_dice_list fr @ [wsl_dice_list lv]"
       "regular_w fr1 = Some (wsl_applied_weight (sigmoid_rampup env) cfg (glob_it ag))"
       "wsl_iterations fr1 = wsl_iterations fr @ [lv]"
    by blast
  from Suc.IH [OF rest] obtain hs where
    h: "length hs = n"
       "wsl_iterations fr' = wsl_iterations fr1 @ hs"
       "wsl_train_loss fr' = wsl_train_loss fr1 + sum_list (map wsl_loss hs)"
       "wsl_train_loss_sup fr' = wsl_train_loss_sup fr1 + sum_list (map wsl_loss_sup hs)"
       "train_loss_reg fr' = train_loss_reg fr1 + sum_list (map loss_reg hs)"
       "wsl_train_dice_list fr' = wsl_train_dice_list fr1 @ map wsl_dice_list hs"
       "glob_it ag' = glob_it ag1"
       "regular_w fr' = (if n = 0 then regular_w fr1
         else Some (wsl_applied_weight (sigmoid_rampup env) cfg (glob_it ag1)))"
       "\<forall>lv \<in> set hs.
          wsl_loss lv = wsl_loss_sup lv
            + wsl_applied_weight (sigmoid_rampup env) cfg (glob_it ag1) * loss_reg lv
        \<and> loss_reg lv = MumfordShahLoss env (weakly_supervised_learning cfg)
                       \<lparr>reg_prediction = wsl_outputs lv, reg_image = wsl_inputs lv\<rparr>"
    by blast
  show ?case
    apply (rule exI [of _ "lv # hs"])
    using f h by simp
qed

lemma wsl_iteration_dice_length:
  assumes "\<forall>k p y. length (classwise_dice env k p y) = k"
    and "\<forall>q \<in> set (wsl_train_dice_list (snd s)). length q = class_num cfg"
    and "wsl_iteration env cfg s = Inr s'"
  shows "\<forall>q \<in> set (wsl_train_dice_list (snd s')). length q = class_num cfg"
  using assms
  by (auto simp: wsl_iteration_def Let_def split: sum.splits)

lemma wsl_loop_dice_length:
  assumes "\<forall>k p y. length (classwise_dice env k p y) = k"
    and "wsl_training_loop env cfg ag = Inr (ag', fr)"
  shows "\<forall>q \<in> set (wsl_train_dice_list fr). length q = class_num cfg"
proof -
  have "\<forall>q \<in> set (wsl_train_dice_list (snd (ag', fr))). length q = class_num cfg"
  proof (rule for_range_invariant
      [where I = "\<lambda>s. \<forall>q \<in> set (wsl_train_dice_list (snd s)). length q = class_num cfg"
        and body = "wsl_iteration env cfg"])
    show "\<And>s s'. \<forall>q \<in> set (wsl_train_dice_list (snd s)). length q = class_num cfg \<Longrightarrow>
        wsl_iteration env cfg s = Inr s' \<Longrightarrow>
        \<forall>q \<in> set (wsl_train_dice_list (snd s')). length q = class_num cfg"
      using wsl_iteration_dice_length [OF assms(1)] by blast
    show "\<forall>q \<in> set (wsl_train_dice_list (snd (ag, wsl_frame0))). length q = class_num cfg"
      by (simp add: wsl_frame0_def)
    show "for_range (nat (iter_valid cfg)) (wsl_iteration env cfg) (ag, wsl_frame0) = Inr (ag', fr)"
      using assms(2) by (simp add: wsl_training_loop_def)
  qed
  then show ?thesis by simp
qed

lemma wsl_loop_sums:
  assumes "wsl_training_loop env cfg ag = Inr (ag', fr)"
  shows "length (wsl_iterations fr) = nat (iter_valid cfg)
    \<and> wsl_train_loss fr = sum_list (map wsl_loss (wsl_iterations fr))
    \<and> wsl_train_loss_sup fr = sum_list (map wsl_loss_sup (wsl_iterations fr))
    \<and> train_loss_reg fr = sum_list (map loss_reg (wsl_iterations fr))
    \<and> wsl_train_dice_list fr = map wsl_dice_list (wsl_iterations fr)
    \<and> glob_it ag' = glob_it ag
    \<and> regular_w fr = (if nat (iter_valid cfg) = 0 then None
         else Some (wsl_applied_weight (sigmoid_rampup env) cfg (glob_it ag)))
    \<and> (\<forall>lv \<in> set (wsl_iterations fr).
          wsl_loss lv = wsl_loss_sup lv
            + wsl_applied_weight (sigmoid_rampup env) cfg (glob_it ag) * loss_reg lv
        \<and> loss_reg lv = MumfordShahLoss env (weakly_supervised_learning cfg)
                       \<lparr>reg_prediction = wsl_outputs lv, reg_image = wsl_inputs lv\<rparr>)"
proof -
  have r: "for_range (nat (iter_valid cfg)) (wsl_iteration env cfg) (ag, wsl_frame0) = Inr (ag', fr)"
    using assms by (simp add: wsl_training_loop_def)
  from wsl_loop_Inr [OF r] show ?thesis
    by (auto simp: wsl_frame0_def)
qed

lemma wsl_training_char:
  assumes pos: "0 < iter_valid cfg"
    and dice: "\<forall>k p y. length (classwise_dice env k p y) = k"
    and loop: "wsl_training_loop env cfg ag = Inr (ag', fr)"
  shows "wsl_training env cfg ag =
     Inr (ag',
       [''loss'' \<mapsto> Scalar (wsl_train_loss fr / real_of_int (iter_valid cfg)),
        ''loss_sup'' \<mapsto> Scalar (wsl_train_loss_sup fr / real_of_int (iter_valid cfg)),
        ''loss_reg'' \<mapsto> Scalar (train_loss_reg fr / real_of_int (iter_valid cfg)),
        ''regular_w'' \<mapsto> Scalar (wsl_applied_weight (sigmoid_rampup env) cfg (glob_it ag)),
        ''avg_dice'' \<mapsto> Scalar (np_mean
            (classwise_mean (wsl_train_dice_list fr) (iter_valid cfg) (class_num cfg))),
        ''class_dice'' \<mapsto> Vector
            (classwise_mean (wsl_train_dice_list fr) (iter_valid cfg) (class_num cfg))])"
proof -
  note s = wsl_loop_sums [OF loop]
  have n: "nat (iter_valid cfg) \<noteq> 0" using pos by simp
  have w: "regular_w fr = Some (wsl_applied_weight (sigmoid_rampup env) cfg (glob_it ag))"
    using s n by simp
  have rows: "wsl_train_dice_list fr \<noteq> []"
    using s n by (metis length_0_conv length_map)
  have len: "real (length (wsl_train_dice_list fr)) = real_of_int (iter_valid cfg)"
    using s pos by simp
  have m: "mean_axis0 (wsl_train_dice_list fr)
      = Inr (classwise_mean (wsl_train_dice_list fr) (iter_valid cfg) (class_num cfg))"
    using mean_axis0_rows [OF rows wsl_loop_dice_length [OF dice loop]] len
    by (simp add: classwise_mean_def)
  show ?thesis
    using pos by (simp add: wsl_training_def loop wsl_train_scalers_def Let_def w m)
qed

lemma wsl_iteration_total:
  assumes "\<forall>k. train_loader env k \<noteq> []"
    and "\<forall>p xs. (\<exists>t. net env p xs = Tensor t) \<or> (\<exists>h hs. net env p xs = Tuple (h # hs))"
  shows "\<exists>s'. wsl_iteration env cfg s = Inr s'"
proof -
  obtain got where 1: "next_or_restart (train_loader env) (trainIter (fst s)) = Inr got"
    using next_or_restart_total [of "train_loader env" "trainIter (fst s)"] assms(1) by blast
  from assms(2) have "(\<exists>t. net env (params (fst s)) (image (fst got)) = Tensor t)
     \<or> (\<exists>h hs. net env (params (fst s)) (image (fst got)) = Tuple (h # hs))" by blast
  then show ?thesis
    by (auto simp: wsl_iteration_def Let_def 1 first_if_tuple_def)
qed

lemmas ex_wsl_sel = ex_wsl_env_def ex_wsl_agent_def ex_wsl_env_heads_def ex_ssl_env_heads_def

lemmas run_defs =
  ssl_training_def ssl_training_loop_def ssl_iteration_def ssl_train_scalers_def ssl_frame0_def
  ssl_applied_weight_def get_consistency_weight_with_rampup_def
  wsl_training_def wsl_training_loop_def wsl_iteration_def wsl_train_scalers_def wsl_frame0_def
  wsl_applied_weight_def
  next_or_restart_def tensor_split_def first_if_tuple_def dict_get_def mean_axis0_def np_mean_def
  ssl_frame_after_def wsl_frame_after_def scalar_entry_def Let_def

lemma classwise_mean_length: "length (classwise_mean rows n k) = k"
  by (simp add: classwise_mean_def)

lemma classwise_mean_nth:
  "c < k \<Longrightarrow> classwise_mean rows n k ! c = sum_list (map (\<lambda>q. q ! c) rows) / real_of_int n"
  by (simp add: classwise_mean_def)

text \<open>
  C7. Let an epoch of either agent have \<^verbatim>\<open>iter_valid > 0\<close> and complete its loop, with
  a Dice evaluation that returns one value per class. Then \<^verbatim>\<open>training\<close> returns, and in
  the dictionary it returns \<^verbatim>\<open>loss\<close>, \<^verbatim>\<open>loss_sup\<close> and \<^verbatim>\<open>loss_unsup\<close>
  (\<^verbatim>\<open>loss_reg\<close>) are the summed losses divided by \<^verbatim>\<open>iter_valid\<close>; \<^verbatim>\<open>class_dice\<close>
  has length \<^verbatim>\<open>class_num\<close> and its \<open>c\<close>-th entry is the sum over the \<^verbatim>\<open>iter_valid\<close>
  per-step Dice vectors of their \<open>c\<close>-th entries, divided by \<^verbatim>\<open>iter_valid\<close>; and
  \<^verbatim>\<open>avg_dice\<close> is the mean of \<^verbatim>\<open>class_dice\<close>.
\<close>

theorem epoch_aggregation:
  assumes pos: "0 < iter_valid cfg"
    and dice: "\<forall>k p y. length (classwise_dice env k p y) = k"
    and wdice: "\<forall>k p y. length (classwise_dice wenv k p y) = k"
    and loop: "ssl_training_loop env cfg ag = Inr (ag', fr)"
    and wloop: "wsl_training_loop wenv cfg wag = Inr (wag', wfr)"
  shows "(\<exists>d v. ssl_training env cfg ag = Inr (ag', d)
      \<and> d ''loss'' = Some (Scalar (train_loss fr / real_of_int (iter_valid cfg)))
      \<and> d ''loss_sup'' = Some (Scalar (train_loss_sup fr / real_of_int (iter_valid cfg)))
      \<and> d ''loss_unsup'' = Some (Scalar (train_loss_unsup fr / real_of_int (iter_valid cfg)))
      \<and> d ''class_dice'' = Some (Vector v)
      \<and> length v = class_num cfg
      \<and> train_dice_list fr = map dice_list (iterations fr)
      \<and> length (iterations fr) = nat (iter_valid cfg)
      \<and> (\<forall>c < class_num cfg.
            v ! c = sum_list (map (\<lambda>q. q ! c) (train_dice_list fr))
                      / real_of_int (iter_valid cfg))
      \<and> d ''avg_dice'' = Some (Scalar (sum_list v / real (length v))))
    \<and> (\<exists>d v. wsl_training wenv cfg wag = Inr (wag', d)
      \<and> d ''loss'' = Some (Scalar (wsl_train_loss wfr / real_of_int (iter_valid cfg)))
      \<and> d ''loss_sup'' = Some (Scalar (wsl_train_loss_sup wfr / real_of_int (iter_valid cfg)))
      \<and> d ''loss_reg'' = Some (Scalar (train_loss_reg wfr / real_of_int (iter_valid cfg)))
      \<and> d ''class_dice'' = Some (Vector v)
      \<and> length v = class_num cfg
      \<and> wsl_train_dice_list wfr = map wsl_dice_list (wsl_iterations wfr)
      \<and> length (wsl_iterations wfr) = nat (iter_valid cfg)
      \<and> (\<forall>c < class_num cfg.
            v ! c = sum_list (map (\<lambda>q. q ! c) (wsl_train_dice_list wfr))
                      / real_of_int (iter_valid cfg))
      \<and> d ''avg_dice'' = Some (Scalar (sum_list v / real (length v))))"
proof
  show "\<exists>d v. ssl_training env cfg ag = Inr (ag', d)
      \<and> d ''loss'' = Some (Scalar (train_loss fr / real_of_int (iter_valid cfg)))
      \<and> d ''loss_sup'' = Some (Scalar (train_loss_sup fr / real_of_int (iter_valid cfg)))
      \<and> d ''loss_unsup'' = Some (Scalar (train_loss_unsup fr / real_of_int (iter_valid cfg)))
      \<and> d ''class_dice'' = Some (Vector v)
      \<and> length v = class_num cfg
      \<and> train_dice_list fr = map dice_list (iterations fr)
      \<and> length (iterations fr) = nat (iter_valid cfg)
      \<and> (\<forall>c < class_num cfg.
            v ! c = sum_list (map (\<lambda>q. q ! c) (train_dice_list fr))
                      / real_of_int (iter_valid cfg))
      \<and> d ''avg_dice'' = Some (Scalar (sum_list v / real (length v)))"
    using ssl_loop_sums [OF loop]
    by (simp add: ssl_training_char [OF pos dice loop] classwise_mean_length
        classwise_mean_nth np_mean_def)
next
  show "\<exists>d v. wsl_training wenv cfg wag = Inr (wag', d)
      \<and> d ''loss'' = Some (Scalar (wsl_train_loss wfr / real_of_int (iter_valid cfg)))
      \<and> d ''loss_sup'' = Some (Scalar (wsl_train_loss_sup wfr / real_of_int (iter_valid cfg)))
      \<and> d ''loss_reg'' = Some (Scalar (train_loss_reg wfr / real_of_int (iter_valid cfg)))
      \<and> d ''class_dice'' = Some (Vector v)
      \<and> length v = class_num cfg
      \<and> wsl_train_dice_list wfr = map wsl_dice_list (wsl_iterations wfr)
      \<and> length (wsl_iterations wfr) = nat (iter_valid cfg)
      \<and> (\<forall>c < class_num cfg.
            v ! c = sum_list (map (\<lambda>q. q ! c) (wsl_train_dice_list wfr))
                      / real_of_int (iter_valid cfg))
      \<and> d ''avg_dice'' = Some (Scalar (sum_list v / real (length v)))"
    using wsl_loop_sums [OF wloop]
    by (simp add: wsl_training_char [OF pos wdice wloop] classwise_mean_length
        classwise_mean_nth np_mean_def)
qed

lemma ex_ssl_loop:
  "\<exists>ag' fr. ssl_training_loop ex_ssl_env ex_cfg ex_ssl_agent = Inr (ag', fr)"
  by (simp add: run_defs ex_sel ex_cfg_def eval_nat_numeral)

lemma ex_wsl_loop:
  "\<exists>ag' fr. wsl_training_loop ex_wsl_env ex_cfg ex_wsl_agent = Inr (ag', fr)"
  by (simp add: run_defs ex_sel ex_wsl_sel ex_cfg_def eval_nat_numeral)

lemma ex_dice:
  "\<forall>k p y. length (classwise_dice ex_ssl_env k p y) = k"
  "\<forall>k p y. length (classwise_dice ex_wsl_env k p y) = k"
  by (simp_all add: ex_ssl_env_def ex_wsl_env_def)

lemma ex_pos: "0 < iter_valid ex_cfg"
  by (simp add: ex_cfg_def)

theorem epoch_aggregation_witness:
  "(\<exists>ag' fr d v. ssl_training_loop ex_ssl_env ex_cfg ex_ssl_agent = Inr (ag', fr)
      \<and> ssl_training ex_ssl_env ex_cfg ex_ssl_agent = Inr (ag', d)
      \<and> d ''loss'' = Some (Scalar (train_loss fr / real_of_int (iter_valid ex_cfg)))
      \<and> d ''class_dice'' = Some (Vector v)
      \<and> length v = class_num ex_cfg
      \<and> d ''avg_dice'' = Some (Scalar (sum_list v / real (length v))))
 \<and> (\<exists>wag' wfr d v. wsl_training_loop ex_wsl_env ex_cfg ex_wsl_agent = Inr (wag', wfr)
      \<and> wsl_training ex_wsl_env ex_cfg ex_wsl_agent = Inr (wag', d)
      \<and> d ''loss_reg'' = Some (Scalar (train_loss_reg wfr / real_of_int (iter_valid ex_cfg)))
      \<and> d ''class_dice'' = Some (Vector v)
      \<and> length v = class_num ex_cfg
      \<and> d ''avg_dice'' = Some (Scalar (sum_list v / real (length v))))
 \<and> scalar_entry (ssl_training ex_ssl_env ex_cfg ex_ssl_agent) ''class_dice''
     = Some (Vector [1, 1 / 2])
 \<and> scalar_entry (ssl_training ex_ssl_env ex_cfg ex_ssl_agent) ''avg_dice''
     = Some (Scalar (3 / 4))
 \<and> scalar_entry (ssl_training ex_ssl_env ex_cfg ex_ssl_agent) ''loss''
     = Some (Scalar (41 / 20))"
proof -
  obtain ag' fr where l: "ssl_training_loop ex_ssl_env ex_cfg ex_ssl_agent = Inr (ag', fr)"
    using ex_ssl_loop by blast
  obtain wag' wfr where wl: "wsl_training_loop ex_wsl_env ex_cfg ex_wsl_agent = Inr (wag', wfr)"
    using ex_wsl_loop by blast
  have ev: "scalar_entry (ssl_training ex_ssl_env ex_cfg ex_ssl_agent) ''class_dice''
       = Some (Vector [1, 1 / 2])
     \<and> scalar_entry (ssl_training ex_ssl_env ex_cfg ex_ssl_agent) ''avg_dice''
       = Some (Scalar (3 / 4))
     \<and> scalar_entry (ssl_training ex_ssl_env ex_cfg ex_ssl_agent) ''loss''
       = Some (Scalar (41 / 20))"
    by (simp add: run_defs ex_sel ex_cfg_def eval_nat_numeral)
  from epoch_aggregation [OF ex_pos ex_dice l wl] l wl ev show ?thesis
    by blast
qed

section \<open>Multi-head networks\<close>

lemma ssl_iteration_tuple_raises:
  assumes "next_or_restart (train_loader env) (trainIter ag) = Inr (dl, c_lab)"
    and "next_or_restart (train_loader_unlab env) (trainIter_unlab ag) = Inr (du, c_unlab)"
    and "net env (params ag) (image dl @ unlab_image du) = Tuple hs"
  shows "ssl_iteration env cfg (ag, fr) = Inl TypeError"
  using assms by (simp add: ssl_iteration_def Let_def tensor_split_def)

lemma wsl_iteration_tuple_first:
  assumes "next_or_restart (train_loader env) (trainIter ag) = Inr (d, c)"
    and "net env (params ag) (image d) = Tuple (h # hs)"
  shows "\<exists>ag' fr' lv. wsl_iteration env cfg (ag, fr) = Inr (ag', fr')
    \<and> wsl_iterations fr' = wsl_iterations fr @ [lv]
    \<and> wsl_outputs lv = Tuple (h # hs)
    \<and> wsl_dice_list lv = classwise_dice env (class_num cfg) h (label_prob d)"
  using assms by (simp add: wsl_iteration_def Let_def first_if_tuple_def)

text \<open>
  C8. With a two-headed network the first training step of the semi-supervised agent
  raises \<^verbatim>\<open>TypeError\<close>: \<^verbatim>\<open>torch.tensor_split\<close> is applied to the tuple before the
  test \<^verbatim>\<open>isinstance(p0, tuple)\<close> is reached, so no Dice value is computed and
  \<^verbatim>\<open>training\<close> raises. The weakly-supervised agent, on the same network, completes and
  evaluates Dice on the first head.
\<close>

theorem ssl_multihead_raises:
  "ssl_iteration ex_ssl_env_heads ex_cfg (ex_ssl_agent, ssl_frame0) = Inl TypeError
 \<and> ssl_training ex_ssl_env_heads ex_cfg ex_ssl_agent = Inl TypeError
 \<and> scalar_entry (wsl_training ex_wsl_env_heads ex_cfg ex_wsl_agent) ''class_dice''
     = Some (Vector [1, 1 / 2])"
  by (simp add: run_defs ex_sel ex_wsl_sel ex_cfg_def eval_nat_numeral)

section \<open>Every entry of the record as a mean over the iterations\<close>

lemma ssl_weight_invariant:
  assumes "ssl_training_loop env cfg ag = Inr (ag', fr)"
  shows "\<forall>lv \<in> set (iterations fr). step_consis_w lv = ssl_applied_weight cfg (glob_it ag)"
proof -
  have "glob_it (fst (ag', fr)) = glob_it ag
      \<and> (\<forall>lv \<in> set (iterations (snd (ag', fr))).
            step_consis_w lv = ssl_applied_weight cfg (glob_it ag))"
  proof (rule for_range_invariant
      [where I = "\<lambda>s. glob_it (fst s) = glob_it ag
          \<and> (\<forall>lv \<in> set (iterations (snd s)).
                step_consis_w lv = ssl_applied_weight cfg (glob_it ag))"
        and body = "ssl_iteration env cfg"])
    show "\<And>s s'. glob_it (fst s) = glob_it ag
          \<and> (\<forall>lv \<in> set (iterations (snd s)).
                step_consis_w lv = ssl_applied_weight cfg (glob_it ag)) \<Longrightarrow>
        ssl_iteration env cfg s = Inr s' \<Longrightarrow>
        glob_it (fst s') = glob_it ag
          \<and> (\<forall>lv \<in> set (iterations (snd s')).
                step_consis_w lv = ssl_applied_weight cfg (glob_it ag))"
      by (auto simp: ssl_iteration_def Let_def split: sum.splits)
    show "glob_it (fst (ag, ssl_frame0)) = glob_it ag
          \<and> (\<forall>lv \<in> set (iterations (snd (ag, ssl_frame0))).
                step_consis_w lv = ssl_applied_weight cfg (glob_it ag))"
      by (simp add: ssl_frame0_def)
    show "for_range (nat (iter_valid cfg)) (ssl_iteration env cfg) (ag, ssl_frame0) = Inr (ag', fr)"
      using assms by (simp add: ssl_training_loop_def)
  qed
  then show ?thesis by simp
qed

lemma wsl_weight_invariant:
  assumes "wsl_training_loop env cfg ag = Inr (ag', fr)"
  shows "\<forall>lv \<in> set (wsl_iterations fr).
           step_regular_w lv = wsl_applied_weight (sigmoid_rampup env) cfg (glob_it ag)"
proof -
  have "glob_it (fst (ag', fr)) = glob_it ag
      \<and> (\<forall>lv \<in> set (wsl_iterations (snd (ag', fr))).
            step_regular_w lv = wsl_applied_weight (sigmoid_rampup env) cfg (glob_it ag))"
  proof (rule for_range_invariant
      [where I = "\<lambda>s. glob_it (fst s) = glob_it ag
          \<and> (\<forall>lv \<in> set (wsl_iterations (snd s)).
                step_regular_w lv = wsl_applied_weight (sigmoid_rampup env) cfg (glob_it ag))"
        and body = "wsl_iteration env cfg"])
    show "\<And>s s'. glob_it (fst s) = glob_it ag
          \<and> (\<forall>lv \<in> set (wsl_iterations (snd s)).
                step_regular_w lv = wsl_applied_weight (sigmoid_rampup env) cfg (glob_it ag)) \<Longrightarrow>
        wsl_iteration env cfg s = Inr s' \<Longrightarrow>
        glob_it (fst s') = glob_it ag
          \<and> (\<forall>lv \<in> set (wsl_iterations (snd s')).
                step_regular_w lv = wsl_applied_weight (sigmoid_rampup env) cfg (glob_it ag))"
      by (auto simp: wsl_iteration_def Let_def split: sum.splits)
    show "glob_it (fst (ag, wsl_frame0)) = glob_it ag
          \<and> (\<forall>lv \<in> set (wsl_iterations (snd (ag, wsl_frame0))).
                step_regular_w lv = wsl_applied_weight (sigmoid_rampup env) cfg (glob_it ag))"
      by (simp add: wsl_frame0_def)
    show "for_range (nat (iter_valid cfg)) (wsl_iteration env cfg) (ag, wsl_frame0) = Inr (ag', fr)"
      using assms by (simp add: wsl_training_loop_def)
  qed
  then show ?thesis by simp
qed

lemma sum_list_const_weights:
  assumes "\<forall>x \<in> set xs. f x = (w::real)"
  shows "sum_list (map f xs) = real (length xs) * w"
  using assms by (induction xs) (simp_all add: algebra_simps)

lemma mean_of_equal_weights:
  assumes "\<forall>x \<in> set xs. f x = (w::real)" and "length xs = nat n" and "0 < n"
  shows "sum_list (map f xs) / real_of_int n = w"
proof -
  have "real (length xs) = real_of_int n" using assms(2,3) by simp
  then show ?thesis using sum_list_const_weights [OF assms(1)] assms(3) by simp
qed

lemma sum_list_divide_const:
  "sum_list (map (\<lambda>x. f x / (n::real)) xs) = sum_list (map f xs) / n"
  by (induction xs) (simp_all add: add_divide_distrib)

lemma sum_list_exchange:
  "sum_list (map (\<lambda>c. sum_list (map (\<lambda>h. (f h c :: real)) hs)) cs)
   = sum_list (map (\<lambda>h. sum_list (map (\<lambda>c. f h c) cs)) hs)"
  by (induction hs) (simp_all add: sum_list_addf)

lemma sum_list_nth_upt: "length d = k \<Longrightarrow> sum_list (map (\<lambda>c. d ! c) [0 ..< k]) = sum_list d"
  by (metis map_nth)

lemma np_mean_classwise_mean:
  assumes "\<forall>q \<in> set rows. length q = k"
  shows "np_mean (classwise_mean rows n k) = sum_list (map np_mean rows) / real_of_int n"
proof -
  have 1: "sum_list (classwise_mean rows n k)
      = sum_list (map (\<lambda>c. sum_list (map (\<lambda>q. q ! c) rows)) [0 ..< k]) / real_of_int n"
    by (simp add: classwise_mean_def sum_list_divide_const)
  have 2: "sum_list (map (\<lambda>c. sum_list (map (\<lambda>q. q ! c) rows)) [0 ..< k])
      = sum_list (map (\<lambda>q. sum_list (map (\<lambda>c. q ! c) [0 ..< k])) rows)"
    by (rule sum_list_exchange)
  have 3: "map (\<lambda>q. sum_list (map (\<lambda>c. q ! c) [0 ..< k])) rows = map sum_list rows"
    using assms by (simp add: sum_list_nth_upt)
  have 4: "map np_mean rows = map (\<lambda>q. sum_list q / real k) rows"
    using assms by (simp add: np_mean_def)
  have "np_mean (classwise_mean rows n k) = (sum_list (map sum_list rows) / real_of_int n) / real k"
    by (simp add: np_mean_def classwise_mean_length 1 2 3)
  also have "\<dots> = sum_list (map (\<lambda>q. sum_list q / real k) rows) / real_of_int n"
    by (simp add: sum_list_divide_const)
  finally show ?thesis by (simp add: 4)
qed

lemma ssl_record_char:
  assumes pos: "0 < iter_valid cfg"
    and dice: "\<forall>k p y. length (classwise_dice env k p y) = k"
    and loop: "ssl_training_loop env cfg ag = Inr (ag', fr)"
  shows "ssl_training env cfg ag =
     Inr (ag',
       [''loss'' \<mapsto> Scalar (sum_list (map loss (iterations fr)) / real_of_int (iter_valid cfg)),
        ''loss_sup'' \<mapsto> Scalar (sum_list (map loss_sup (iterations fr))
                              / real_of_int (iter_valid cfg)),
        ''loss_unsup'' \<mapsto> Scalar (sum_list (map loss_unsup (iterations fr))
                                / real_of_int (iter_valid cfg)),
        ''consis_w'' \<mapsto> Scalar (sum_list (map step_consis_w (iterations fr))
                              / real_of_int (iter_valid cfg)),
        ''avg_dice'' \<mapsto> Scalar (sum_list (map (\<lambda>lv. np_mean (dice_list lv)) (iterations fr))
                              / real_of_int (iter_valid cfg)),
        ''class_dice'' \<mapsto> Vector
           (map (\<lambda>c. sum_list (map (\<lambda>lv. dice_list lv ! c) (iterations fr))
                        / real_of_int (iter_valid cfg))
              [0 ..< class_num cfg])])"
proof -
  note s = ssl_loop_sums [OF loop]
  have len: "length (iterations fr) = nat (iter_valid cfg)" using s by simp
  have w: "sum_list (map step_consis_w (iterations fr)) / real_of_int (iter_valid cfg)
      = ssl_applied_weight cfg (glob_it ag)"
    by (rule mean_of_equal_weights [OF ssl_weight_invariant [OF loop] len pos])
  have rows: "train_dice_list fr = map dice_list (iterations fr)" using s by simp
  have a: "np_mean (classwise_mean (train_dice_list fr) (iter_valid cfg) (class_num cfg))
      = sum_list (map (\<lambda>lv. np_mean (dice_list lv)) (iterations fr))
          / real_of_int (iter_valid cfg)"
    using np_mean_classwise_mean [OF ssl_loop_dice_length [OF dice loop], of "iter_valid cfg"]
    by (simp add: rows comp_def)
  have c: "classwise_mean (train_dice_list fr) (iter_valid cfg) (class_num cfg)
      = map (\<lambda>c. sum_list (map (\<lambda>lv. dice_list lv ! c) (iterations fr))
                        / real_of_int (iter_valid cfg))
              [0 ..< class_num cfg]"
    by (simp add: classwise_mean_def rows comp_def)
  show ?thesis
    unfolding ssl_training_char [OF pos dice loop] c a [unfolded c] w
    using s by simp
qed

lemma wsl_record_char:
  assumes pos: "0 < iter_valid cfg"
    and dice: "\<forall>k p y. length (classwise_dice env k p y) = k"
    and loop: "wsl_training_loop env cfg ag = Inr (ag', fr)"
  shows "wsl_training env cfg ag =
     Inr (ag',
       [''loss'' \<mapsto> Scalar (sum_list (map wsl_loss (wsl_iterations fr))
                          / real_of_int (iter_valid cfg)),
        ''loss_sup'' \<mapsto> Scalar (sum_list (map wsl_loss_sup (wsl_iterations fr))
                              / real_of_int (iter_valid cfg)),
        ''loss_reg'' \<mapsto> Scalar (sum_list (map loss_reg (wsl_iterations fr))
                              / real_of_int (iter_valid cfg)),
        ''regular_w'' \<mapsto> Scalar (sum_list (map step_regular_w (wsl_iterations fr))
                               / real_of_int (iter_valid cfg)),
        ''avg_dice'' \<mapsto> Scalar (sum_list (map (\<lambda>lv. np_mean (wsl_dice_list lv))
                                           (wsl_iterations fr))
                              / real_of_int (iter_valid cfg)),
        ''class_dice'' \<mapsto> Vector
           (map (\<lambda>c. sum_list (map (\<lambda>lv. wsl_dice_list lv ! c) (wsl_iterations fr))
                        / real_of_int (iter_valid cfg))
              [0 ..< class_num cfg])])"
proof -
  note s = wsl_loop_sums [OF loop]
  have len: "length (wsl_iterations fr) = nat (iter_valid cfg)" using s by simp
  have w: "sum_list (map step_regular_w (wsl_iterations fr)) / real_of_int (iter_valid cfg)
      = wsl_applied_weight (sigmoid_rampup env) cfg (glob_it ag)"
    by (rule mean_of_equal_weights [OF wsl_weight_invariant [OF loop] len pos])
  have rows: "wsl_train_dice_list fr = map wsl_dice_list (wsl_iterations fr)" using s by simp
  have a: "np_mean (classwise_mean (wsl_train_dice_list fr) (iter_valid cfg) (class_num cfg))
      = sum_list (map (\<lambda>lv. np_mean (wsl_dice_list lv)) (wsl_iterations fr))
          / real_of_int (iter_valid cfg)"
    using np_mean_classwise_mean [OF wsl_loop_dice_length [OF dice loop], of "iter_valid cfg"]
    by (simp add: rows comp_def)
  have c: "classwise_mean (wsl_train_dice_list fr) (iter_valid cfg) (class_num cfg)
      = map (\<lambda>c. sum_list (map (\<lambda>lv. wsl_dice_list lv ! c) (wsl_iterations fr))
                        / real_of_int (iter_valid cfg))
              [0 ..< class_num cfg]"
    by (simp add: classwise_mean_def rows comp_def)
  show ?thesis
    unfolding wsl_training_char [OF pos dice loop] c a [unfolded c] w
    using s by simp
qed

text \<open>
  C9. Under the conditions of C7 the record of either agent has exactly its six keys,
  and every entry is the sum over the \<^verbatim>\<open>iter_valid\<close> iterations of that iteration's
  value, divided by \<^verbatim>\<open>iter_valid\<close>: the three losses, the weight (\<^verbatim>\<open>consis_w\<close>,
  \<^verbatim>\<open>regular_w\<close>), the mean Dice of the step for \<^verbatim>\<open>avg_dice\<close> and, class by class,
  the Dice vector of the step for \<^verbatim>\<open>class_dice\<close>. For the weight the code keeps no
  sum: it stores what the last iteration assigned. Every iteration of an epoch assigns
  the same weight, the applied weight at the global step at which \<^verbatim>\<open>training\<close> was
  called, so the stored value is the mean of the per-step weights.
\<close>

theorem epoch_record_entries:
  assumes pos: "0 < iter_valid cfg"
    and dice: "\<forall>k p y. length (classwise_dice env k p y) = k"
    and wdice: "\<forall>k p y. length (classwise_dice wenv k p y) = k"
    and loop: "ssl_training_loop env cfg ag = Inr (ag', fr)"
    and wloop: "wsl_training_loop wenv cfg wag = Inr (wag', wfr)"
  shows "(\<exists>d. ssl_training env cfg ag = Inr (ag', d)
      \<and> dom d = {''loss'', ''loss_sup'', ''loss_unsup'', ''consis_w'', ''avg_dice'', ''class_dice''}
      \<and> length (iterations fr) = nat (iter_valid cfg)
      \<and> d ''loss'' = Some (Scalar (sum_list (map loss (iterations fr))
                                     / real_of_int (iter_valid cfg)))
      \<and> d ''loss_sup'' = Some (Scalar (sum_list (map loss_sup (iterations fr))
                                         / real_of_int (iter_valid cfg)))
      \<and> d ''loss_unsup'' = Some (Scalar (sum_list (map loss_unsup (iterations fr))
                                           / real_of_int (iter_valid cfg)))
      \<and> d ''consis_w'' = Some (Scalar (sum_list (map step_consis_w (iterations fr))
                                         / real_of_int (iter_valid cfg)))
      \<and> d ''avg_dice'' = Some (Scalar
            (sum_list (map (\<lambda>lv. np_mean (dice_list lv)) (iterations fr))
             / real_of_int (iter_valid cfg)))
      \<and> d ''class_dice'' = Some (Vector
            (map (\<lambda>c. sum_list (map (\<lambda>lv. dice_list lv ! c) (iterations fr))
                         / real_of_int (iter_valid cfg))
               [0 ..< class_num cfg]))
      \<and> (\<forall>lv \<in> set (iterations fr).
            step_consis_w lv = ssl_applied_weight cfg (glob_it ag)
          \<and> loss lv = loss_sup lv + step_consis_w lv * loss_unsup lv))
    \<and> (\<exists>d. wsl_training wenv cfg wag = Inr (wag', d)
      \<and> dom d = {''loss'', ''loss_sup'', ''loss_reg'', ''regular_w'', ''avg_dice'', ''class_dice''}
      \<and> length (wsl_iterations wfr) = nat (iter_valid cfg)
      \<and> d ''loss'' = Some (Scalar (sum_list (map wsl_loss (wsl_iterations wfr))
                                     / real_of_int (iter_valid cfg)))
      \<and> d ''loss_sup'' = Some (Scalar (sum_list (map wsl_loss_sup (wsl_iterations wfr))
                                         / real_of_int (iter_valid cfg)))
      \<and> d ''loss_reg'' = Some (Scalar (sum_list (map loss_reg (wsl_iterations wfr))
                                         / real_of_int (iter_valid cfg)))
      \<and> d ''regular_w'' = Some (Scalar (sum_list (map step_regular_w (wsl_iterations wfr))
                                          / real_of_int (iter_valid cfg)))
      \<and> d ''avg_dice'' = Some (Scalar
            (sum_list (map (\<lambda>lv. np_mean (wsl_dice_list lv)) (wsl_iterations wfr))
             / real_of_int (iter_valid cfg)))
      \<and> d ''class_dice'' = Some (Vector
            (map (\<lambda>c. sum_list (map (\<lambda>lv. wsl_dice_list lv ! c) (wsl_iterations wfr))
                         / real_of_int (iter_valid cfg))
               [0 ..< class_num cfg]))
      \<and> (\<forall>lv \<in> set (wsl_iterations wfr).
            step_regular_w lv = wsl_applied_weight (sigmoid_rampup wenv) cfg (glob_it wag)
          \<and> wsl_loss lv = wsl_loss_sup lv + step_regular_w lv * loss_reg lv))"
proof
  have keys: "dom [''loss'' \<mapsto> a, ''loss_sup'' \<mapsto> b, ''loss_unsup'' \<mapsto> c, ''consis_w'' \<mapsto> e,
        ''avg_dice'' \<mapsto> f, ''class_dice'' \<mapsto> g]
      = {''loss'', ''loss_sup'', ''loss_unsup'', ''consis_w'', ''avg_dice'', ''class_dice''}"
    for a b c e f g :: scalar
    by auto
  note s = ssl_loop_sums [OF loop]
  note w = ssl_weight_invariant [OF loop]
  have steps: "\<forall>lv \<in> set (iterations fr).
            step_consis_w lv = ssl_applied_weight cfg (glob_it ag)
          \<and> loss lv = loss_sup lv + step_consis_w lv * loss_unsup lv"
    using s w by simp
  have len: "length (iterations fr) = nat (iter_valid cfg)" using s by simp
  show "\<exists>d. ssl_training env cfg ag = Inr (ag', d)
      \<and> dom d = {''loss'', ''loss_sup'', ''loss_unsup'', ''consis_w'', ''avg_dice'', ''class_dice''}
      \<and> length (iterations fr) = nat (iter_valid cfg)
      \<and> d ''loss'' = Some (Scalar (sum_list (map loss (iterations fr))
                                     / real_of_int (iter_valid cfg)))
      \<and> d ''loss_sup'' = Some (Scalar (sum_list (map loss_sup (iterations fr))
                                         / real_of_int (iter_valid cfg)))
      \<and> d ''loss_unsup'' = Some (Scalar (sum_list (map loss_unsup (iterations fr))
                                           / real_of_int (iter_valid cfg)))
      \<and> d ''consis_w'' = Some (Scalar (sum_list (map step_consis_w (iterations fr))
                                         / real_of_int (iter_valid cfg)))
      \<and> d ''avg_dice'' = Some (Scalar
            (sum_list (map (\<lambda>lv. np_mean (dice_list lv)) (iterations fr))
             / real_of_int (iter_valid cfg)))
      \<and> d ''class_dice'' = Some (Vector
            (map (\<lambda>c. sum_list (map (\<lambda>lv. dice_list lv ! c) (iterations fr))
                         / real_of_int (iter_valid cfg))
               [0 ..< class_num cfg]))
      \<and> (\<forall>lv \<in> set (iterations fr).
            step_consis_w lv = ssl_applied_weight cfg (glob_it ag)
          \<and> loss lv = loss_sup lv + step_consis_w lv * loss_unsup lv)"
    unfolding ssl_record_char [OF pos dice loop]
    apply (intro exI conjI)
             apply (rule refl)
            apply (rule keys)
           apply (rule len)
          apply simp_all
    by (rule steps)
next
  have keys: "dom [''loss'' \<mapsto> a, ''loss_sup'' \<mapsto> b, ''loss_reg'' \<mapsto> c, ''regular_w'' \<mapsto> e,
        ''avg_dice'' \<mapsto> f, ''class_dice'' \<mapsto> g]
      = {''loss'', ''loss_sup'', ''loss_reg'', ''regular_w'', ''avg_dice'', ''class_dice''}"
    for a b c e f g :: scalar
    by auto
  note s = wsl_loop_sums [OF wloop]
  note w = wsl_weight_invariant [OF wloop]
  have steps: "\<forall>lv \<in> set (wsl_iterations wfr).
            step_regular_w lv = wsl_applied_weight (sigmoid_rampup wenv) cfg (glob_it wag)
          \<and> wsl_loss lv = wsl_loss_sup lv + step_regular_w lv * loss_reg lv"
    using s w by simp
  have len: "length (wsl_iterations wfr) = nat (iter_valid cfg)" using s by simp
  show "\<exists>d. wsl_training wenv cfg wag = Inr (wag', d)
      \<and> dom d = {''loss'', ''loss_sup'', ''loss_reg'', ''regular_w'', ''avg_dice'', ''class_dice''}
      \<and> length (wsl_iterations wfr) = nat (iter_valid cfg)
      \<and> d ''loss'' = Some (Scalar (sum_list (map wsl_loss (wsl_iterations wfr))
                                     / real_of_int (iter_valid cfg)))
      \<and> d ''loss_sup'' = Some (Scalar (sum_list (map wsl_loss_sup (wsl_iterations wfr))
                                         / real_of_int (iter_valid cfg)))
      \<and> d ''loss_reg'' = Some (Scalar (sum_list (map loss_reg (wsl_iterations wfr))
                                         / real_of_int (iter_valid cfg)))
      \<and> d ''regular_w'' = Some (Scalar (sum_list (map step_regular_w (wsl_iterations wfr))
                                          / real_of_int (iter_valid cfg)))
      \<and> d ''avg_dice'' = Some (Scalar
            (sum_list (map (\<lambda>lv. np_mean (wsl_dice_list lv)) (wsl_iterations wfr))
             / real_of_int (iter_valid cfg)))
      \<and> d ''class_dice'' = Some (Vector
            (map (\<lambda>c. sum_list (map (\<lambda>lv. wsl_dice_list lv ! c) (wsl_iterations wfr))
                         / real_of_int (iter_valid cfg))
               [0 ..< class_num cfg]))
      \<and> (\<forall>lv \<in> set (wsl_iterations wfr).
            step_regular_w lv = wsl_applied_weight (sigmoid_rampup wenv) cfg (glob_it wag)
          \<and> wsl_loss lv = wsl_loss_sup lv + step_regular_w lv * loss_reg lv)"
    unfolding wsl_record_char [OF pos wdice wloop]
    apply (intro exI conjI)
             apply (rule refl)
            apply (rule keys)
           apply (rule len)
          apply simp_all
    by (rule steps)
qed

theorem epoch_record_entries_witness:
  "(\<exists>ag' fr d. ssl_training_loop ex_ssl_env ex_cfg ex_ssl_agent = Inr (ag', fr)
      \<and> ssl_training ex_ssl_env ex_cfg ex_ssl_agent = Inr (ag', d)
      \<and> dom d = {''loss'', ''loss_sup'', ''loss_unsup'', ''consis_w'', ''avg_dice'', ''class_dice''}
      \<and> length (iterations fr) = nat (iter_valid ex_cfg)
      \<and> d ''loss_unsup'' = Some (Scalar (sum_list (map loss_unsup (iterations fr))
                                           / real_of_int (iter_valid ex_cfg)))
      \<and> d ''consis_w'' = Some (Scalar (sum_list (map step_consis_w (iterations fr))
                                         / real_of_int (iter_valid ex_cfg)))
      \<and> d ''avg_dice'' = Some (Scalar
            (sum_list (map (\<lambda>lv. np_mean (dice_list lv)) (iterations fr))
             / real_of_int (iter_valid ex_cfg))))
 \<and> (\<exists>wag' wfr d. wsl_training_loop ex_wsl_env ex_cfg ex_wsl_agent = Inr (wag', wfr)
      \<and> wsl_training ex_wsl_env ex_cfg ex_wsl_agent = Inr (wag', d)
      \<and> length (wsl_iterations wfr) = nat (iter_valid ex_cfg)
      \<and> d ''loss_reg'' = Some (Scalar (sum_list (map loss_reg (wsl_iterations wfr))
                                         / real_of_int (iter_valid ex_cfg)))
      \<and> d ''regular_w'' = Some (Scalar (sum_list (map step_regular_w (wsl_iterations wfr))
                                          / real_of_int (iter_valid ex_cfg))))
 \<and> map_option (\<lambda>f. map step_consis_w (iterations f))
      (ssl_frame_after ex_ssl_env ex_cfg ex_ssl_agent 2) = Some [1 / 10, 1 / 10]
 \<and> scalar_entry (ssl_training ex_ssl_env ex_cfg ex_ssl_agent) ''consis_w''
      = Some (Scalar (1 / 10))
 \<and> map_option (\<lambda>f. map step_regular_w (wsl_iterations f))
      (wsl_frame_after ex_wsl_env ex_cfg ex_wsl_agent 2) = Some [1 / 10, 1 / 10]
 \<and> scalar_entry (wsl_training ex_wsl_env ex_cfg ex_wsl_agent) ''regular_w''
      = Some (Scalar (1 / 10))"
proof -
  obtain ag' fr where l: "ssl_training_loop ex_ssl_env ex_cfg ex_ssl_agent = Inr (ag', fr)"
    using ex_ssl_loop by blast
  obtain wag' wfr where wl: "wsl_training_loop ex_wsl_env ex_cfg ex_wsl_agent = Inr (wag', wfr)"
    using ex_wsl_loop by blast
  have e1: "map_option (\<lambda>f. map step_consis_w (iterations f))
      (ssl_frame_after ex_ssl_env ex_cfg ex_ssl_agent 2) = Some [1 / 10, 1 / 10]"
    by (simp add: run_defs ex_sel ex_cfg_def eval_nat_numeral)
  have e2: "scalar_entry (ssl_training ex_ssl_env ex_cfg ex_ssl_agent) ''consis_w''
      = Some (Scalar (1 / 10))"
    by (simp add: run_defs ex_sel ex_cfg_def eval_nat_numeral)
  have e3: "map_option (\<lambda>f. map step_regular_w (wsl_iterations f))
      (wsl_frame_after ex_wsl_env ex_cfg ex_wsl_agent 2) = Some [1 / 10, 1 / 10]"
    by (simp add: run_defs ex_sel ex_wsl_sel ex_cfg_def eval_nat_numeral)
  have e4: "scalar_entry (wsl_training ex_wsl_env ex_cfg ex_wsl_agent) ''regular_w''
      = Some (Scalar (1 / 10))"
    by (simp add: run_defs ex_sel ex_wsl_sel ex_cfg_def eval_nat_numeral)
  from epoch_record_entries [OF ex_pos ex_dice l wl] l wl e1 e2 e3 e4 show ?thesis
    by (elim conjE exE) (intro conjI exI, assumption+)
qed

section \<open>The auxiliary loss in the record\<close>

text \<open>
  C10, as stated, fails in its last part: the reported auxiliary average is not
  independent of the weight schedule. With an optimiser whose step depends on the weight
  inside \<^verbatim>\<open>loss\<close> and an epoch of two iterations, the schedule with applied weight
  1/10 reports the average 97/4 and the schedule with applied weight 0 reports 23: the
  second iteration runs the network with the parameter the first backward pass left.
\<close>

theorem aux_average_depends_on_schedule:
  "ssl_applied_weight ex_cfg (glob_it ex_ssl_agent_dyn) = 1 / 10
 \<and> ssl_applied_weight ex_cfg_gated (glob_it ex_ssl_agent_dyn) = 0
 \<and> scalar_entry (ssl_training ex_ssl_env_dyn ex_cfg ex_ssl_agent_dyn) ''loss_unsup''
     = Some (Scalar (97 / 4))
 \<and> scalar_entry (ssl_training ex_ssl_env_dyn ex_cfg_gated ex_ssl_agent_dyn) ''loss_unsup''
     = Some (Scalar 23)"
  by (simp add: run_defs ex_ssl_env_dyn_def ex_ssl_agent_dyn_def ex_cursor_def ex_cursor_unlab_def
      ex_loader_def ex_loader_unlab_def tensor_size_def ex_cfg_def ex_cfg_gated_def
      eval_nat_numeral)

text \<open>
  C10, amended. In every training step of both agents the value added to the auxiliary
  accumulator (\<^verbatim>\<open>train_loss_unsup\<close>, \<^verbatim>\<open>train_loss_reg\<close>) is the auxiliary loss of
  that step's network output as the loss function returned it; the weight multiplies it
  only in what is added to \<^verbatim>\<open>train_loss\<close>, which is
  \<^verbatim>\<open>loss_sup + weight * auxiliary loss\<close>. Under the conditions of C7 the reported
  auxiliary entry is the sum of those raw values over the \<^verbatim>\<open>iter_valid\<close> iterations
  divided by \<^verbatim>\<open>iter_valid\<close>, with no weight in it. From a given state of the agent, a
  step adds the same raw value under any other configuration and any other global step
  (for the weakly-supervised agent: as long as the loss object is the same).
\<close>

theorem aux_loss_reported_unweighted:
  assumes pos: "0 < iter_valid cfg"
    and dice: "\<forall>k p y. length (classwise_dice env k p y) = k"
    and wdice: "\<forall>k p y. length (classwise_dice wenv k p y) = k"
    and loop: "ssl_training_loop env cfg ag = Inr (ag', fr)"
    and wloop: "wsl_training_loop wenv cfg wag = Inr (wag', wfr)"
  shows "(\<exists>d. ssl_training env cfg ag = Inr (ag', d)
      \<and> length (iterations fr) = nat (iter_valid cfg)
      \<and> d ''loss_unsup'' = Some (Scalar
           (sum_list (map (\<lambda>lv. EntropyLoss env \<lparr>prediction = outputs lv, softmax = True\<rparr>)
                       (iterations fr))
            / real_of_int (iter_valid cfg)))
      \<and> d ''loss'' = Some (Scalar
           (sum_list (map (\<lambda>lv. loss_sup lv + ssl_applied_weight cfg (glob_it ag)
                                   * EntropyLoss env \<lparr>prediction = outputs lv, softmax = True\<rparr>)
                       (iterations fr))
            / real_of_int (iter_valid cfg))))
    \<and> (ssl_iteration env cfg (ag, fr0) = Inr (ag1, fr1) \<longrightarrow>
         (\<exists>lv. iterations fr1 = iterations fr0 @ [lv]
            \<and> outputs lv = net env (params ag) (inputs lv)
            \<and> train_loss_unsup fr1 = train_loss_unsup fr0
                 + EntropyLoss env \<lparr>prediction = outputs lv, softmax = True\<rparr>
            \<and> train_loss fr1 = train_loss fr0
                 + (loss_sup lv + ssl_applied_weight cfg (glob_it ag)
                      * EntropyLoss env \<lparr>prediction = outputs lv, softmax = True\<rparr>)))
    \<and> (\<forall>cfg2 g s1 s2.
          ssl_iteration env cfg (ag, fr0) = Inr s1
        \<and> ssl_iteration env cfg2 (ag\<lparr>glob_it := g\<rparr>, fr0) = Inr s2
        \<longrightarrow> train_loss_unsup (snd s2) = train_loss_unsup (snd s1))
    \<and> (\<exists>d. wsl_training wenv cfg wag = Inr (wag', d)
      \<and> length (wsl_iterations wfr) = nat (iter_valid cfg)
      \<and> d ''loss_reg'' = Some (Scalar
           (sum_list (map (\<lambda>lv. MumfordShahLoss wenv (weakly_supervised_learning cfg)
                                   \<lparr>reg_prediction = wsl_outputs lv, reg_image = wsl_inputs lv\<rparr>)
                       (wsl_iterations wfr))
            / real_of_int (iter_valid cfg)))
      \<and> d ''loss'' = Some (Scalar
           (sum_list (map (\<lambda>lv. wsl_loss_sup lv
                                  + wsl_applied_weight (sigmoid_rampup wenv) cfg (glob_it wag)
                                   * MumfordShahLoss wenv (weakly_supervised_learning cfg)
                                       \<lparr>reg_prediction = wsl_outputs lv,
                                        reg_image = wsl_inputs lv\<rparr>)
                       (wsl_iterations wfr))
            / real_of_int (iter_valid cfg))))
    \<and> (wsl_iteration wenv cfg (wag, wfr0) = Inr (wag1, wfr1) \<longrightarrow>
         (\<exists>lv. wsl_iterations wfr1 = wsl_iterations wfr0 @ [lv]
            \<and> wsl_outputs lv = net wenv (params wag) (wsl_inputs lv)
            \<and> train_loss_reg wfr1 = train_loss_reg wfr0
                 + MumfordShahLoss wenv (weakly_supervised_learning cfg)
                     \<lparr>reg_prediction = wsl_outputs lv, reg_image = wsl_inputs lv\<rparr>
            \<and> wsl_train_loss wfr1 = wsl_train_loss wfr0
                 + (wsl_loss_sup lv + wsl_applied_weight (sigmoid_rampup wenv) cfg (glob_it wag)
                      * MumfordShahLoss wenv (weakly_supervised_learning cfg)
                          \<lparr>reg_prediction = wsl_outputs lv, reg_image = wsl_inputs lv\<rparr>)))
    \<and> (\<forall>cfg2 g s1 s2.
          wsl_iteration wenv cfg (wag, wfr0) = Inr s1
        \<and> wsl_iteration wenv cfg2 (wag\<lparr>glob_it := g\<rparr>, wfr0) = Inr s2
        \<and> MumfordShahLoss wenv (weakly_supervised_learning cfg2)
            = MumfordShahLoss wenv (weakly_supervised_learning cfg)
        \<longrightarrow> train_loss_reg (snd s2) = train_loss_reg (snd s1))"
proof -
  note s = ssl_loop_sums [OF loop]
  note ws = wsl_loop_sums [OF wloop]
  have e1: "map loss_unsup (iterations fr)
      = map (\<lambda>lv. EntropyLoss env \<lparr>prediction = outputs lv, softmax = True\<rparr>) (iterations fr)"
    using s by simp
  have e2: "map loss (iterations fr)
      = map (\<lambda>lv. loss_sup lv + ssl_applied_weight cfg (glob_it ag)
                     * EntropyLoss env \<lparr>prediction = outputs lv, softmax = True\<rparr>)
          (iterations fr)"
    using s by simp
  have a: "\<exists>d. ssl_training env cfg ag = Inr (ag', d)
      \<and> length (iterations fr) = nat (iter_valid cfg)
      \<and> d ''loss_unsup'' = Some (Scalar
           (sum_list (map (\<lambda>lv. EntropyLoss env \<lparr>prediction = outputs lv, softmax = True\<rparr>)
                       (iterations fr))
            / real_of_int (iter_valid cfg)))
      \<and> d ''loss'' = Some (Scalar
           (sum_list (map (\<lambda>lv. loss_sup lv + ssl_applied_weight cfg (glob_it ag)
                                   * EntropyLoss env \<lparr>prediction = outputs lv, softmax = True\<rparr>)
                       (iterations fr))
            / real_of_int (iter_valid cfg)))"
    using s by (simp add: ssl_training_char [OF pos dice loop] e1 [symmetric] e2 [symmetric])
  have a2: "ssl_iteration env cfg (ag, fr0) = Inr (ag1, fr1) \<longrightarrow>
         (\<exists>lv. iterations fr1 = iterations fr0 @ [lv]
            \<and> outputs lv = net env (params ag) (inputs lv)
            \<and> train_loss_unsup fr1 = train_loss_unsup fr0
                 + EntropyLoss env \<lparr>prediction = outputs lv, softmax = True\<rparr>
            \<and> train_loss fr1 = train_loss fr0
                 + (loss_sup lv + ssl_applied_weight cfg (glob_it ag)
                      * EntropyLoss env \<lparr>prediction = outputs lv, softmax = True\<rparr>))"
  proof
    assume step: "ssl_iteration env cfg (ag, fr0) = Inr (ag1, fr1)"
    from ssl_iteration_Inr [OF step] obtain lv where
      f: "iterations fr1 = iterations fr0 @ [lv]"
         "outputs lv = net env (params ag) (inputs lv)"
         "loss_unsup lv = EntropyLoss env \<lparr>prediction = outputs lv, softmax = True\<rparr>"
         "loss lv = loss_sup lv + ssl_applied_weight cfg (glob_it ag) * loss_unsup lv"
         "train_loss fr1 = train_loss fr0 + loss lv"
         "train_loss_unsup fr1 = train_loss_unsup fr0 + loss_unsup lv"
      by blast
    show "\<exists>lv. iterations fr1 = iterations fr0 @ [lv]
            \<and> outputs lv = net env (params ag) (inputs lv)
            \<and> train_loss_unsup fr1 = train_loss_unsup fr0
                 + EntropyLoss env \<lparr>prediction = outputs lv, softmax = True\<rparr>
            \<and> train_loss fr1 = train_loss fr0
                 + (loss_sup lv + ssl_applied_weight cfg (glob_it ag)
                      * EntropyLoss env \<lparr>prediction = outputs lv, softmax = True\<rparr>)"
      by (rule exI [of _ lv]) (use f in simp)
  qed
  have w1: "map loss_reg (wsl_iterations wfr)
      = map (\<lambda>lv. MumfordShahLoss wenv (weakly_supervised_learning cfg)
                     \<lparr>reg_prediction = wsl_outputs lv, reg_image = wsl_inputs lv\<rparr>)
          (wsl_iterations wfr)"
    using ws by simp
  have w2: "map wsl_loss (wsl_iterations wfr)
      = map (\<lambda>lv. wsl_loss_sup lv
                    + wsl_applied_weight (sigmoid_rampup wenv) cfg (glob_it wag)
                       * MumfordShahLoss wenv (weakly_supervised_learning cfg)
                           \<lparr>reg_prediction = wsl_outputs lv, reg_image = wsl_inputs lv\<rparr>)
          (wsl_iterations wfr)"
    using ws by simp
  have b: "\<exists>d. wsl_training wenv cfg wag = Inr (wag', d)
      \<and> length (wsl_iterations wfr) = nat (iter_valid cfg)
      \<and> d ''loss_reg'' = Some (Scalar
           (sum_list (map (\<lambda>lv. MumfordShahLoss wenv (weakly_supervised_learning cfg)
                                   \<lparr>reg_prediction = wsl_outputs lv, reg_image = wsl_inputs lv\<rparr>)
                       (wsl_iterations wfr))
            / real_of_int (iter_valid cfg)))
      \<and> d ''loss'' = Some (Scalar
           (sum_list (map (\<lambda>lv. wsl_loss_sup lv
                                  + wsl_applied_weight (sigmoid_rampup wenv) cfg (glob_it wag)
                                   * MumfordShahLoss wenv (weakly_supervised_learning cfg)
                                       \<lparr>reg_prediction = wsl_outputs lv,
                                        reg_image = wsl_inputs lv\<rparr>)
                       (wsl_iterations wfr))
            / real_of_int (iter_valid cfg)))"
    using ws by (simp add: wsl_training_char [OF pos wdice wloop] w1 [symmetric] w2 [symmetric])
  have b2: "wsl_iteration wenv cfg (wag, wfr0) = Inr (wag1, wfr1) \<longrightarrow>
         (\<exists>lv. wsl_iterations wfr1 = wsl_iterations wfr0 @ [lv]
            \<and> wsl_outputs lv = net wenv (params wag) (wsl_inputs lv)
            \<and> train_loss_reg wfr1 = train_loss_reg wfr0
                 + MumfordShahLoss wenv (weakly_supervised_learning cfg)
                     \<lparr>reg_prediction = wsl_outputs lv, reg_image = wsl_inputs lv\<rparr>
            \<and> wsl_train_loss wfr1 = wsl_train_loss wfr0
                 + (wsl_loss_sup lv + wsl_applied_weight (sigmoid_rampup wenv) cfg (glob_it wag)
                      * MumfordShahLoss wenv (weakly_supervised_learning cfg)
                          \<lparr>reg_prediction = wsl_outputs lv, reg_image = wsl_inputs lv\<rparr>))"
  proof
    assume step: "wsl_iteration wenv cfg (wag, wfr0) = Inr (wag1, wfr1)"
    from wsl_iteration_Inr [OF step] obtain lv where
      f: "wsl_iterations wfr1 = wsl_iterations wfr0 @ [lv]"
         "wsl_outputs lv = net wenv (params wag) (wsl_inputs lv)"
         "loss_reg lv = MumfordShahLoss wenv (weakly_supervised_learning cfg)
                       \<lparr>reg_prediction = wsl_outputs lv, reg_image = wsl_inputs lv\<rparr>"
         "wsl_loss lv = wsl_loss_sup lv
            + wsl_applied_weight (sigmoid_rampup wenv) cfg (glob_it wag) * loss_reg lv"
         "wsl_train_loss wfr1 = wsl_train_loss wfr0 + wsl_loss lv"
         "train_loss_reg wfr1 = train_loss_reg wfr0 + loss_reg lv"
      by blast
    show "\<exists>lv. wsl_iterations wfr1 = wsl_iterations wfr0 @ [lv]
            \<and> wsl_outputs lv = net wenv (params wag) (wsl_inputs lv)
            \<and> train_loss_reg wfr1 = train_loss_reg wfr0
                 + MumfordShahLoss wenv (weakly_supervised_learning cfg)
                     \<lparr>reg_prediction = wsl_outputs lv, reg_image = wsl_inputs lv\<rparr>
            \<and> wsl_train_loss wfr1 = wsl_train_loss wfr0
                 + (wsl_loss_sup lv + wsl_applied_weight (sigmoid_rampup wenv) cfg (glob_it wag)
                      * MumfordShahLoss wenv (weakly_supervised_learning cfg)
                          \<lparr>reg_prediction = wsl_outputs lv, reg_image = wsl_inputs lv\<rparr>)"
      by (rule exI [of _ lv]) (use f in simp)
  qed
  have c: "\<forall>cfg2 g s1 s2.
          ssl_iteration env cfg (ag, fr0) = Inr s1
        \<and> ssl_iteration env cfg2 (ag\<lparr>glob_it := g\<rparr>, fr0) = Inr s2
        \<longrightarrow> train_loss_unsup (snd s2) = train_loss_unsup (snd s1)"
  proof (intro allI impI)
    fix cfg2 g s1 s2
    assume h: "ssl_iteration env cfg (ag, fr0) = Inr s1
        \<and> ssl_iteration env cfg2 (ag\<lparr>glob_it := g\<rparr>, fr0) = Inr s2"
    from h have 1: "ssl_iteration env cfg (ag, fr0) = Inr (fst s1, snd s1)" by simp
    from h have 2: "ssl_iteration env cfg2 (ag\<lparr>glob_it := g\<rparr>, fr0) = Inr (fst s2, snd s2)"
      by simp
    from ssl_iteration_Inr [OF 1] ssl_iteration_Inr [OF 2]
    show "train_loss_unsup (snd s2) = train_loss_unsup (snd s1)"
      by clarsimp
  qed
  have d: "\<forall>cfg2 g s1 s2.
          wsl_iteration wenv cfg (wag, wfr0) = Inr s1
        \<and> wsl_iteration wenv cfg2 (wag\<lparr>glob_it := g\<rparr>, wfr0) = Inr s2
        \<and> MumfordShahLoss wenv (weakly_supervised_learning cfg2)
            = MumfordShahLoss wenv (weakly_supervised_learning cfg)
        \<longrightarrow> train_loss_reg (snd s2) = train_loss_reg (snd s1)"
  proof (intro allI impI)
    fix cfg2 g s1 s2
    assume h: "wsl_iteration wenv cfg (wag, wfr0) = Inr s1
        \<and> wsl_iteration wenv cfg2 (wag\<lparr>glob_it := g\<rparr>, wfr0) = Inr s2
        \<and> MumfordShahLoss wenv (weakly_supervised_learning cfg2)
            = MumfordShahLoss wenv (weakly_supervised_learning cfg)"
    from h have 1: "wsl_iteration wenv cfg (wag, wfr0) = Inr (fst s1, snd s1)" by simp
    from h have 2: "wsl_iteration wenv cfg2 (wag\<lparr>glob_it := g\<rparr>, wfr0) = Inr (fst s2, snd s2)"
      by simp
    from h have 3: "MumfordShahLoss wenv (weakly_supervised_learning cfg2)
            = MumfordShahLoss wenv (weakly_supervised_learning cfg)" by simp
    from wsl_iteration_Inr [OF 1] wsl_iteration_Inr [OF 2] 3
    show "train_loss_reg (snd s2) = train_loss_reg (snd s1)"
      by clarsimp
  qed
  show ?thesis by (intro conjI a a2 c b b2 d)
qed

theorem aux_loss_reported_unweighted_witness:
  "(\<exists>ag' fr d. ssl_training_loop ex_ssl_env ex_cfg ex_ssl_agent = Inr (ag', fr)
      \<and> ssl_training ex_ssl_env ex_cfg ex_ssl_agent = Inr (ag', d)
      \<and> length (iterations fr) = nat (iter_valid ex_cfg)
      \<and> d ''loss_unsup'' = Some (Scalar
           (sum_list (map (\<lambda>lv. EntropyLoss ex_ssl_env \<lparr>prediction = outputs lv, softmax = True\<rparr>)
                       (iterations fr))
            / real_of_int (iter_valid ex_cfg))))
 \<and> (\<exists>wag' wfr d. wsl_training_loop ex_wsl_env ex_cfg ex_wsl_agent = Inr (wag', wfr)
      \<and> wsl_training ex_wsl_env ex_cfg ex_wsl_agent = Inr (wag', d)
      \<and> length (wsl_iterations wfr) = nat (iter_valid ex_cfg)
      \<and> d ''loss_reg'' = Some (Scalar
           (sum_list (map (\<lambda>lv. MumfordShahLoss ex_wsl_env (weakly_supervised_learning ex_cfg)
                                   \<lparr>reg_prediction = wsl_outputs lv, reg_image = wsl_inputs lv\<rparr>)
                       (wsl_iterations wfr))
            / real_of_int (iter_valid ex_cfg))))
 \<and> scalar_entry (ssl_training ex_ssl_env ex_cfg ex_ssl_agent) ''loss_unsup'' = Some (Scalar (1 / 2))
 \<and> scalar_entry (ssl_training ex_ssl_env ex_cfg ex_ssl_agent) ''loss'' = Some (Scalar (41 / 20))
 \<and> scalar_entry (wsl_training ex_wsl_env ex_cfg ex_wsl_agent) ''loss_reg'' = Some (Scalar (1 / 5))
 \<and> scalar_entry (wsl_training ex_wsl_env ex_cfg ex_wsl_agent) ''loss'' = Some (Scalar (101 / 50))"
proof -
  obtain ag' fr where l: "ssl_training_loop ex_ssl_env ex_cfg ex_ssl_agent = Inr (ag', fr)"
    using ex_ssl_loop by blast
  obtain wag' wfr where wl: "wsl_training_loop ex_wsl_env ex_cfg ex_wsl_agent = Inr (wag', wfr)"
    using ex_wsl_loop by blast
  have e1: "scalar_entry (ssl_training ex_ssl_env ex_cfg ex_ssl_agent) ''loss_unsup''
      = Some (Scalar (1 / 2))"
    by (simp add: run_defs ex_sel ex_cfg_def eval_nat_numeral)
  have e2: "scalar_entry (ssl_training ex_ssl_env ex_cfg ex_ssl_agent) ''loss''
      = Some (Scalar (41 / 20))"
    by (simp add: run_defs ex_sel ex_cfg_def eval_nat_numeral)
  have e3: "scalar_entry (wsl_training ex_wsl_env ex_cfg ex_wsl_agent) ''loss_reg''
      = Some (Scalar (1 / 5))"
    by (simp add: run_defs ex_sel ex_wsl_sel ex_cfg_def eval_nat_numeral)
  have e4: "scalar_entry (wsl_training ex_wsl_env ex_cfg ex_wsl_agent) ''loss''
      = Some (Scalar (101 / 50))"
    by (simp add: run_defs ex_sel ex_wsl_sel ex_cfg_def eval_nat_numeral)
  note t = aux_loss_reported_unweighted [OF ex_pos ex_dice l wl]
  from t [THEN conjunct1]
       t [THEN conjunct2, THEN conjunct2, THEN conjunct2, THEN conjunct1] l wl e1 e2 e3 e4
  show ?thesis
    by (elim conjE exE) (intro conjI exI, assumption+)
qed

end
